theory Spec2Isabelle
  imports Complex_Main
begin

section \<open>Numbers\<close>

text \<open>
  A JavaScript number is modelled as a real: inputs are finite and arithmetic is exact
  (no rounding, no overflow). Every claim about \<open>Plane\<close> and about the \<open>Ray\<close> methods
  other than \<open>intersectBox\<close> is stated "in exact real arithmetic" and lives in this
  model. \<open>intersectBox\<close> divides by direction components that are zero and steers on
  the resulting infinities and NaNs, so it is embedded separately below over a number
  type that has them.
\<close>

section \<open>Vector3\<close>

text \<open>
  Modelled from the spec: \<open>Vector3.js\<close> is not among the sources. The spec lists the
  operations the core consumes (add, subtract, scale, dot, cross, length, normalize,
  distance); each is given here componentwise under the name \<open>Ray.js\<close> and
  \<open>Plane.js\<close> call it by. The in-place methods return the updated receiver.
\<close>

datatype Vector3 = Vector3 (vx: real) (vy: real) (vz: real)

definition add :: "Vector3 \<Rightarrow> Vector3 \<Rightarrow> Vector3" where
  "add this v = Vector3 (vx this + vx v) (vy this + vy v) (vz this + vz v)"

definition sub :: "Vector3 \<Rightarrow> Vector3 \<Rightarrow> Vector3" where
  "sub this v = Vector3 (vx this - vx v) (vy this - vy v) (vz this - vz v)"

definition subVectors :: "Vector3 \<Rightarrow> Vector3 \<Rightarrow> Vector3" where
  "subVectors a b = Vector3 (vx a - vx b) (vy a - vy b) (vz a - vz b)"

definition multiplyScalar :: "Vector3 \<Rightarrow> real \<Rightarrow> Vector3" where
  "multiplyScalar this s = Vector3 (vx this * s) (vy this * s) (vz this * s)"

definition dot :: "Vector3 \<Rightarrow> Vector3 \<Rightarrow> real" where
  "dot this v = vx this * vx v + vy this * vy v + vz this * vz v"

definition crossVectors :: "Vector3 \<Rightarrow> Vector3 \<Rightarrow> Vector3" where
  "crossVectors a b =
     Vector3 (vy a * vz b - vz a * vy b)
             (vz a * vx b - vx a * vz b)
             (vx a * vy b - vy a * vx b)"

definition cross :: "Vector3 \<Rightarrow> Vector3 \<Rightarrow> Vector3" where
  "cross this v = crossVectors this v"

definition lengthSq :: "Vector3 \<Rightarrow> real" where
  "lengthSq this = vx this * vx this + vy this * vy this + vz this * vz this"

definition length_v :: "Vector3 \<Rightarrow> real" where
  "length_v this = sqrt (lengthSq this)"

text \<open>
  Modelled from the spec: \<open>normalize\<close> rescales to unit length. The spec says nothing
  about the zero vector; every statement below that depends on \<open>normalize\<close> assumes
  a vector of nonzero length.
\<close>

definition normalize :: "Vector3 \<Rightarrow> Vector3" where
  "normalize this = multiplyScalar this (1 / length_v this)"

definition distanceToSquared :: "Vector3 \<Rightarrow> Vector3 \<Rightarrow> real" where
  "distanceToSquared this v =
     (let dx = vx this - vx v; dy = vy this - vy v; dz = vz this - vz v
      in dx * dx + dy * dy + dz * dz)"

definition distanceTo :: "Vector3 \<Rightarrow> Vector3 \<Rightarrow> real" where
  "distanceTo this v = sqrt (distanceToSquared this v)"

section \<open>Plane\<close>

text \<open>
  \<open>Plane.js\<close>: a plane is a normal and a constant. The mutating methods return the
  updated plane.
\<close>

record Plane =
  normal :: Vector3
  "constant" :: real

text \<open>\<open>setFromNormalAndCoplanarPoint\<close>, \<open>Plane.js\<close> lines 72-81.\<close>

definition setFromNormalAndCoplanarPoint :: "Plane \<Rightarrow> Vector3 \<Rightarrow> Vector3 \<Rightarrow> Plane" where
  "setFromNormalAndCoplanarPoint this n point =
     (let this1 = this\<lparr>normal := n\<rparr>
      in this1\<lparr>constant := - dot point (normal this1)\<rparr>)"

text \<open>\<open>setFromCoplanarPoints\<close>, \<open>Plane.js\<close> lines 94-105.\<close>

definition setFromCoplanarPoints :: "Plane \<Rightarrow> Vector3 \<Rightarrow> Vector3 \<Rightarrow> Vector3 \<Rightarrow> Plane" where
  "setFromCoplanarPoints this a b c =
     (let n = normalize (cross (subVectors c b) (subVectors a b))
      in setFromNormalAndCoplanarPoint this n a)"

text \<open>
  \<open>Plane.normalize\<close>, \<open>Plane.js\<close> lines 126-136. For a normal of length zero the
  JavaScript quotient is infinite; that input is outside the real model and excluded
  by hypothesis wherever this function is used.
\<close>

definition normalize_plane :: "Plane \<Rightarrow> Plane" where
  "normalize_plane this =
     (let inverseNormalLength = 1 / length_v (normal this);
          this1 = this\<lparr>normal := multiplyScalar (normal this) inverseNormalLength\<rparr>
      in this1\<lparr>constant := constant this1 * inverseNormalLength\<rparr>)"

text \<open>\<open>distanceToPoint\<close>, \<open>Plane.js\<close> lines 156-160.\<close>

definition distanceToPoint :: "Plane \<Rightarrow> Vector3 \<Rightarrow> real" where
  "distanceToPoint this point = dot (normal this) point + constant this"

text \<open>Three points are collinear when the cross product of two of their differences vanishes.\<close>

definition collinear3 :: "Vector3 \<Rightarrow> Vector3 \<Rightarrow> Vector3 \<Rightarrow> bool" where
  "collinear3 a b c = (cross (subVectors c b) (subVectors a b) = Vector3 0 0 0)"

section \<open>Sphere, Line3\<close>

text \<open>
  Modelled from the spec: \<open>Sphere.js\<close> and \<open>Line3.js\<close> are not among the sources.
  The core reads a sphere's \<open>center\<close> and \<open>radius\<close> and a segment's two endpoints
  and its \<open>delta\<close> (end minus start).
\<close>

record Sphere =
  center :: Vector3
  radius :: real

record Line3 =
  start :: Vector3
  "end" :: Vector3

definition delta :: "Line3 \<Rightarrow> Vector3" where
  "delta this = subVectors (end this) (start this)"

text \<open>\<open>Plane.intersectLine\<close>, \<open>Plane.js\<close> lines 198-238; \<open>None\<close> is \<open>null\<close>.\<close>

definition intersectLine :: "Plane \<Rightarrow> Line3 \<Rightarrow> Vector3 option" where
  "intersectLine this line =
     (let direction = delta line;
          denominator = dot (normal this) direction
      in if denominator = 0 then
           (if distanceToPoint this (start line) = 0 then Some (start line) else None)
         else
           (let t = - (dot (start line) (normal this) + constant this) / denominator
            in if t < 0 \<or> t > 1 then None
               else Some (add (multiplyScalar direction t) (start line))))"

section \<open>Ray\<close>

text \<open>
  \<open>Ray.js\<close>: a ray is an origin and a direction. Methods that write a point into a
  \<open>target\<close> return that point; the target is a fresh object, distinct from the ray's
  own vectors. The module's scratch vectors are local values here.
\<close>

record Ray =
  origin :: Vector3
  direction :: Vector3

text \<open>\<open>at\<close>, lines 69-80.\<close>

definition at_ray :: "Ray \<Rightarrow> real \<Rightarrow> Vector3" where
  "at_ray this t = add (multiplyScalar (direction this) t) (origin this)"


text \<open>\<open>intersectSphere\<close>, lines 303-332.\<close>

definition intersectSphere :: "Ray \<Rightarrow> Sphere \<Rightarrow> Vector3 option" where
  "intersectSphere this sphere =
     (let v = subVectors (center sphere) (origin this);
          tca = dot v (direction this);
          d2 = dot v v - tca * tca;
          radius2 = radius sphere * radius sphere
      in if d2 > radius2 then None
         else
           (let thc = sqrt (radius2 - d2);
                t0 = tca - thc;
                t1 = tca + thc
            in if t0 < 0 \<and> t1 < 0 then None
               else if t0 < 0 then Some (at_ray this t1)
               else Some (at_ray this t0)))"


text \<open>\<open>distanceToPlane\<close>, lines 350-376.\<close>

definition distanceToPlane :: "Ray \<Rightarrow> Plane \<Rightarrow> real option" where
  "distanceToPlane this plane =
     (let denominator = dot (normal plane) (direction this)
      in if denominator = 0 then
           (if distanceToPoint plane (origin this) = 0 then Some 0 else None)
         else
           (let t = - (dot (origin this) (normal plane) + constant plane) / denominator
            in if t \<ge> 0 then Some t else None))"

text \<open>
  \<open>intersectTriangle\<close>, lines 524-597. The source overwrites its scratch edges:
  \<open>_edge2\<close> becomes \<open>cross (_diff, _edge2)\<close> and \<open>_edge1\<close> becomes
  \<open>cross (_edge1, _diff)\<close>; \<open>_normal\<close> is computed before either is overwritten.
\<close>

definition intersectTriangle ::
  "Ray \<Rightarrow> Vector3 \<Rightarrow> Vector3 \<Rightarrow> Vector3 \<Rightarrow> bool \<Rightarrow> Vector3 option" where
  "intersectTriangle this a b c backfaceCulling =
     (let edge1 = subVectors b a;
          edge2 = subVectors c a;
          normal_t = crossVectors edge1 edge2;
          DdN = dot (direction this) normal_t
      in if DdN > 0 \<and> backfaceCulling then None
         else if DdN = 0 then None
         else
           (let sign = (if DdN > 0 then 1 else - 1);
                DdN1 = (if DdN > 0 then DdN else - DdN);
                diff = subVectors (origin this) a;
                edge2a = crossVectors diff edge2;
                DdQxE2 = sign * dot (direction this) edge2a
            in if DdQxE2 < 0 then None
               else
                 (let edge1a = cross edge1 diff;
                      DdE1xQ = sign * dot (direction this) edge1a
                  in if DdE1xQ < 0 then None
                     else if DdQxE2 + DdE1xQ > DdN1 then None
                     else
                       (let QdN = - sign * dot diff normal_t
                        in if QdN < 0 then None
                           else Some (at_ray this (QdN / DdN1))))))"

text \<open>
  A sphere lies entirely behind the origin of a ray with unit direction when every
  point of it has a negative parameter along the ray; the largest parameter of a point
  of the sphere is that of the center plus the radius. It lies entirely ahead when the
  smallest parameter, that of the center minus the radius, is positive.
\<close>

definition sphereBehind :: "Ray \<Rightarrow> Sphere \<Rightarrow> bool" where
  "sphereBehind r s =
     (dot (subVectors (center s) (origin r)) (direction r) + \<bar>radius s\<bar> < 0)"

definition sphereAhead :: "Ray \<Rightarrow> Sphere \<Rightarrow> bool" where
  "sphereAhead r s =
     (0 < dot (subVectors (center s) (origin r)) (direction r) - \<bar>radius s\<bar>)"

text \<open>
  \<open>distanceSqToSegment\<close>, lines 179-296. The source first sets up the segment's
  center, direction and half length and the scalars \<open>a01\<close>, \<open>b0\<close>, \<open>b1\<close>, \<open>c\<close>, \<open>det\<close>
  (lines 188-197); then a case analysis over six regions and the parallel case assigns
  \<open>s0\<close>, \<open>s1\<close> and \<open>sqrDist\<close> (lines 200-280); then it writes the two optional output
  points (lines 282-292). \<open>segmentRegions\<close> is the case analysis, on scalars only, and
  returns \<open>(s0, s1, sqrDist)\<close>.
\<close>

definition segmentRegions ::
  "real \<Rightarrow> real \<Rightarrow> real \<Rightarrow> real \<Rightarrow> real \<Rightarrow> real \<Rightarrow> real \<times> real \<times> real" where
  "segmentRegions segExtent a01 b0 b1 c det =
     (if det > 0 then
        (let s0 = a01 * b1 - b0;
             s1 = a01 * b0 - b1;
             extDet = segExtent * det
         in if s0 \<ge> 0 then
              (if s1 \<ge> - extDet then
                 (if s1 \<le> extDet then
                    (let invDet = 1 / det;
                         s0a = s0 * invDet;
                         s1a = s1 * invDet;
                         sqrDist = s0a * (s0a + a01 * s1a + 2 * b0)
                                   + s1a * (a01 * s0a + s1a + 2 * b1) + c
                     in (s0a, s1a, sqrDist))
                  else
                    (let s1a = segExtent;
                         s0a = max 0 (- (a01 * s1a + b0));
                         sqrDist = - s0a * s0a + s1a * (s1a + 2 * b1) + c
                     in (s0a, s1a, sqrDist)))
               else
                 (let s1a = - segExtent;
                      s0a = max 0 (- (a01 * s1a + b0));
                      sqrDist = - s0a * s0a + s1a * (s1a + 2 * b1) + c
                  in (s0a, s1a, sqrDist)))
            else
              (if s1 \<le> - extDet then
                 (let s0a = max 0 (- (- a01 * segExtent + b0));
                      s1a = (if s0a > 0 then - segExtent
                             else min (max (- segExtent) (- b1)) segExtent);
                      sqrDist = - s0a * s0a + s1a * (s1a + 2 * b1) + c
                  in (s0a, s1a, sqrDist))
               else if s1 \<le> extDet then
                 (let s0a = 0;
                      s1a = min (max (- segExtent) (- b1)) segExtent;
                      sqrDist = s1a * (s1a + 2 * b1) + c
                  in (s0a, s1a, sqrDist))
               else
                 (let s0a = max 0 (- (a01 * segExtent + b0));
                      s1a = (if s0a > 0 then segExtent
                             else min (max (- segExtent) (- b1)) segExtent);
                      sqrDist = - s0a * s0a + s1a * (s1a + 2 * b1) + c
                  in (s0a, s1a, sqrDist))))
      else
        (let s1a = (if a01 > 0 then - segExtent else segExtent);
             s0a = max 0 (- (a01 * s1a + b0));
             sqrDist = - s0a * s0a + s1a * (s1a + 2 * b1) + c
         in (s0a, s1a, sqrDist)))"

text \<open>
  An optional output argument is \<open>Some\<close> object when the caller supplies one and
  \<open>None\<close> when it does not; the result is the returned number and the two arguments
  as the call leaves them. The two outputs are distinct objects, and distinct from the
  ray's own vectors.
\<close>

definition distanceSqToSegment ::
  "Ray \<Rightarrow> Vector3 \<Rightarrow> Vector3 \<Rightarrow> Vector3 option \<Rightarrow> Vector3 option
     \<Rightarrow> real \<times> Vector3 option \<times> Vector3 option" where
  "distanceSqToSegment this v0 v1 optionalPointOnRay optionalPointOnSegment =
     (let segCenter = multiplyScalar (add v0 v1) 0.5;
          segDir = normalize (sub v1 v0);
          diff = sub (origin this) segCenter;
          segExtent = distanceTo v0 v1 * 0.5;
          a01 = - dot (direction this) segDir;
          b0 = dot diff (direction this);
          b1 = - dot diff segDir;
          c = lengthSq diff;
          det = \<bar>1 - a01 * a01\<bar>;
          (s0, s1, sqrDist) = segmentRegions segExtent a01 b0 b1 c det
      in (sqrDist,
          map_option (\<lambda>_. add (multiplyScalar (direction this) s0) (origin this))
            optionalPointOnRay,
          map_option (\<lambda>_. add (multiplyScalar segDir s1) segCenter)
            optionalPointOnSegment))"

text \<open>
  What the case analysis has to deliver: a ray parameter \<open>s0\<close> that is not negative, a
  segment offset \<open>s1\<close> within the half length, and a number that is the value at
  \<open>(s0, s1)\<close> of the quadratic
  \<open>s0^2 + 2 a01 s0 s1 + s1^2 + 2 b0 s0 + 2 b1 s1 + c\<close>, which is the squared distance
  between the two points when both directions have unit length.
\<close>

definition regionResult ::
  "real \<Rightarrow> real \<Rightarrow> real \<Rightarrow> real \<Rightarrow> real \<Rightarrow> real \<times> real \<times> real \<Rightarrow> bool" where
  "regionResult segExtent a01 b0 b1 c res =
     (case res of (s0, s1, sqrDist) \<Rightarrow>
        0 \<le> s0 \<and> - segExtent \<le> s1 \<and> s1 \<le> segExtent
        \<and> sqrDist = s0 * s0 + 2 * a01 * s0 * s1 + s1 * s1 + 2 * b0 * s0 + 2 * b1 * s1 + c)"

section \<open>Numbers with infinities and NaN\<close>

text \<open>
  \<open>intersectBox\<close> computes \<open>1 / direction.x\<close> for a direction component that may be
  zero and relies on what JavaScript does next: the quotient is an infinity, a zero
  times an infinity is NaN, and every ordered comparison with NaN is false. \<open>jsnum\<close>
  is a JavaScript number with these values: \<open>Fin x\<close> is the finite number \<open>x\<close>
  (\<open>Fin 0\<close> is \<open>+0\<close>), \<open>NegZero\<close> is \<open>-0\<close>. Finite results are exact: rounding and
  overflow are not modelled.
\<close>

datatype jsnum = Fin real | NegZero | PosInf | NegInf | NaN

fun negative :: "jsnum \<Rightarrow> bool" where
  "negative (Fin x) = (x < 0)"
| "negative NegZero = True"
| "negative PosInf = False"
| "negative NegInf = True"
| "negative NaN = False"

fun isInfinite :: "jsnum \<Rightarrow> bool" where
  "isInfinite PosInf = True"
| "isInfinite NegInf = True"
| "isInfinite _ = False"

fun isZero :: "jsnum \<Rightarrow> bool" where
  "isZero (Fin x) = (x = 0)"
| "isZero NegZero = True"
| "isZero _ = False"

fun isFinite :: "jsnum \<Rightarrow> bool" where
  "isFinite (Fin x) = True"
| "isFinite NegZero = True"
| "isFinite _ = False"

text \<open>The real value of a finite number.\<close>

fun val :: "jsnum \<Rightarrow> real" where
  "val (Fin x) = x"
| "val _ = 0"

definition signedInf :: "bool \<Rightarrow> jsnum" where
  "signedInf neg = (if neg then NegInf else PosInf)"

text \<open>A finite result: a zero takes the given sign.\<close>

definition signedFin :: "bool \<Rightarrow> real \<Rightarrow> jsnum" where
  "signedFin neg x = (if x = 0 then (if neg then NegZero else Fin 0) else Fin x)"

fun js_neg :: "jsnum \<Rightarrow> jsnum" where
  "js_neg (Fin x) = (if x = 0 then NegZero else Fin (- x))"
| "js_neg NegZero = Fin 0"
| "js_neg PosInf = NegInf"
| "js_neg NegInf = PosInf"
| "js_neg NaN = NaN"

text \<open>
  \<open>a + b\<close>: NaN for a NaN operand and for infinities of opposite sign; a zero sum is
  \<open>-0\<close> only when both operands are \<open>-0\<close>.
\<close>

definition js_add :: "jsnum \<Rightarrow> jsnum \<Rightarrow> jsnum" where
  "js_add a b =
     (if a = NaN \<or> b = NaN \<or> (isInfinite a \<and> isInfinite b \<and> a \<noteq> b) then NaN
      else if isInfinite a then a
      else if isInfinite b then b
      else signedFin (a = NegZero \<and> b = NegZero) (val a + val b))"

definition js_sub :: "jsnum \<Rightarrow> jsnum \<Rightarrow> jsnum" where
  "js_sub a b = js_add a (js_neg b)"

text \<open>\<open>a * b\<close>: NaN for a NaN operand and for zero times infinity; the sign is the product of the signs.\<close>

definition js_mul :: "jsnum \<Rightarrow> jsnum \<Rightarrow> jsnum" where
  "js_mul a b =
     (if a = NaN \<or> b = NaN \<or> (isZero a \<and> isInfinite b) \<or> (isInfinite a \<and> isZero b) then NaN
      else if isInfinite a \<or> isInfinite b then signedInf (negative a \<noteq> negative b)
      else signedFin (negative a \<noteq> negative b) (val a * val b))"

text \<open>\<open>a / b\<close>: NaN for a NaN operand, zero by zero and infinity by infinity; a nonzero number by zero is an infinity.\<close>

definition js_div :: "jsnum \<Rightarrow> jsnum \<Rightarrow> jsnum" where
  "js_div a b =
     (if a = NaN \<or> b = NaN \<or> (isZero a \<and> isZero b) \<or> (isInfinite a \<and> isInfinite b) then NaN
      else if isInfinite a \<or> isZero b then signedInf (negative a \<noteq> negative b)
      else if isInfinite b then signedFin (negative a \<noteq> negative b) 0
      else signedFin (negative a \<noteq> negative b) (val a / val b))"

text \<open>The comparisons \<open>a < b\<close>, \<open>a > b\<close>, \<open>a >= b\<close>, \<open>a !== b\<close>: with a NaN operand the first three are false and the last is true; the two zeros are equal.\<close>

fun js_lt :: "jsnum \<Rightarrow> jsnum \<Rightarrow> bool" where
  "js_lt NaN _ = False"
| "js_lt _ NaN = False"
| "js_lt PosInf _ = False"
| "js_lt _ NegInf = False"
| "js_lt NegInf _ = True"
| "js_lt _ PosInf = True"
| "js_lt a b = (val a < val b)"

fun js_eq :: "jsnum \<Rightarrow> jsnum \<Rightarrow> bool" where
  "js_eq NaN _ = False"
| "js_eq _ NaN = False"
| "js_eq PosInf b = (b = PosInf)"
| "js_eq a PosInf = False"
| "js_eq NegInf b = (b = NegInf)"
| "js_eq a NegInf = False"
| "js_eq a b = (val a = val b)"

definition js_gt :: "jsnum \<Rightarrow> jsnum \<Rightarrow> bool" where
  "js_gt a b = js_lt b a"

definition js_ge :: "jsnum \<Rightarrow> jsnum \<Rightarrow> bool" where
  "js_ge a b = (js_lt b a \<or> js_eq a b)"

definition js_ne :: "jsnum \<Rightarrow> jsnum \<Rightarrow> bool" where
  "js_ne a b = (\<not> js_eq a b)"

section \<open>Ray and box\<close>

text \<open>
  Modelled from the spec: \<open>Box3.js\<close> is not among the sources; the core reads a box's
  \<open>min\<close> and \<open>max\<close> corners. Vectors, the ray and \<open>at\<close> are the ones above with
  \<open>jsnum\<close> components.
\<close>

datatype Vector3N = Vector3N (nx: jsnum) (ny: jsnum) (nz: jsnum)

record RayN =
  originN :: Vector3N
  directionN :: Vector3N

record Box3 =
  box_min :: Vector3N
  box_max :: Vector3N

text \<open>\<open>at\<close>, \<open>Ray.js\<close> lines 69-80: copy the direction, multiply by \<open>t\<close>, add the origin.\<close>

definition atN :: "RayN \<Rightarrow> jsnum \<Rightarrow> Vector3N" where
  "atN this t =
     Vector3N (js_add (js_mul (nx (directionN this)) t) (nx (originN this)))
              (js_add (js_mul (ny (directionN this)) t) (ny (originN this)))
              (js_add (js_mul (nz (directionN this)) t) (nz (originN this)))"

text \<open>\<open>intersectBox\<close>, \<open>Ray.js\<close> lines 436-503.\<close>

definition intersectBox :: "RayN \<Rightarrow> Box3 \<Rightarrow> Vector3N option" where
  "intersectBox this box =
     (let invdirx = js_div (Fin 1) (nx (directionN this));
          invdiry = js_div (Fin 1) (ny (directionN this));
          invdirz = js_div (Fin 1) (nz (directionN this));
          origin = originN this;
          (tmin, tmax) =
             (if js_ge invdirx (Fin 0)
              then (js_mul (js_sub (nx (box_min box)) (nx origin)) invdirx,
                    js_mul (js_sub (nx (box_max box)) (nx origin)) invdirx)
              else (js_mul (js_sub (nx (box_max box)) (nx origin)) invdirx,
                    js_mul (js_sub (nx (box_min box)) (nx origin)) invdirx));
          (tymin, tymax) =
             (if js_ge invdiry (Fin 0)
              then (js_mul (js_sub (ny (box_min box)) (ny origin)) invdiry,
                    js_mul (js_sub (ny (box_max box)) (ny origin)) invdiry)
              else (js_mul (js_sub (ny (box_max box)) (ny origin)) invdiry,
                    js_mul (js_sub (ny (box_min box)) (ny origin)) invdiry))
      in if js_gt tmin tymax \<or> js_gt tymin tmax then None
         else
           (let tmin1 = (if js_gt tymin tmin \<or> js_ne tmin tmin then tymin else tmin);
                tmax1 = (if js_lt tymax tmax \<or> js_ne tmax tmax then tymax else tmax);
                (tzmin, tzmax) =
                   (if js_ge invdirz (Fin 0)
                    then (js_mul (js_sub (nz (box_min box)) (nz origin)) invdirz,
                          js_mul (js_sub (nz (box_max box)) (nz origin)) invdirz)
                    else (js_mul (js_sub (nz (box_max box)) (nz origin)) invdirz,
                          js_mul (js_sub (nz (box_min box)) (nz origin)) invdirz))
            in if js_gt tmin1 tzmax \<or> js_gt tzmin tmax1 then None
               else
                 (let tmin2 = (if js_gt tzmin tmin1 \<or> js_ne tmin1 tmin1 then tzmin else tmin1);
                      tmax2 = (if js_lt tzmax tmax1 \<or> js_ne tmax1 tmax1 then tzmax else tmax1)
                  in if js_lt tmax2 (Fin 0) then None
                     else Some (atN this (if js_ge tmin2 (Fin 0) then tmin2 else tmax2)))))"

text \<open>
  The slab method in the spec's words: the interval of ray parameters between the two
  planes of one axis, ordered by the sign of the reciprocal direction component, and the
  narrowing of a running bound by the next axis's bound.
\<close>

definition slab :: "jsnum \<Rightarrow> jsnum \<Rightarrow> jsnum \<Rightarrow> jsnum \<Rightarrow> jsnum \<times> jsnum" where
  "slab lo hi org d =
     (let invdir = js_div (Fin 1) d
      in if js_ge invdir (Fin 0)
         then (js_mul (js_sub lo org) invdir, js_mul (js_sub hi org) invdir)
         else (js_mul (js_sub hi org) invdir, js_mul (js_sub lo org) invdir))"

definition narrowMin :: "jsnum \<Rightarrow> jsnum \<Rightarrow> jsnum" where
  "narrowMin running bound = (if js_gt bound running \<or> js_ne running running then bound else running)"

definition narrowMax :: "jsnum \<Rightarrow> jsnum \<Rightarrow> jsnum" where
  "narrowMax running bound = (if js_lt bound running \<or> js_ne running running then bound else running)"

section \<open>Vector algebra\<close>

lemma dot_commute: "dot a b = dot b a"
  by (simp add: dot_def mult.commute)

lemma dot_multiplyScalar_left: "dot (multiplyScalar a s) b = s * dot a b"
  by (simp add: dot_def multiplyScalar_def algebra_simps)

lemma dot_multiplyScalar_right: "dot a (multiplyScalar b s) = s * dot a b"
  by (simp add: dot_def multiplyScalar_def algebra_simps)

lemma dot_subVectors_right: "dot a (subVectors b c) = dot a b - dot a c"
  by (simp add: dot_def subVectors_def algebra_simps)

lemma dot_cross_left_zero: "dot (cross u v) u = 0"
  by (simp add: dot_def cross_def crossVectors_def algebra_simps)

lemma dot_cross_right_zero: "dot (cross u v) v = 0"
  by (simp add: dot_def cross_def crossVectors_def algebra_simps)

lemma lengthSq_nonneg: "0 \<le> lengthSq v"
  by (simp add: lengthSq_def)

lemma lengthSq_zero_iff: "lengthSq v = 0 \<longleftrightarrow> v = Vector3 0 0 0"
proof (cases v)
  case (Vector3 a b c)
  have "a * a + b * b + c * c = 0 \<longleftrightarrow> a = 0 \<and> b = 0 \<and> c = 0"
    using sum_squares_eq_zero_iff [of a b]
    by (smt (verit) mult_eq_0_iff not_sum_squares_lt_zero zero_le_square)
  then show ?thesis using Vector3 by (simp add: lengthSq_def)
qed

lemma length_v_pos: "v \<noteq> Vector3 0 0 0 \<Longrightarrow> 0 < length_v v"
  using lengthSq_zero_iff [of v] lengthSq_nonneg [of v]
  by (simp add: length_v_def less_le)

section \<open>Plane: claims\<close>

lemma plane_from_points_normal:
  "normal (setFromCoplanarPoints p a b c) = normalize (cross (subVectors c b) (subVectors a b))"
  by (simp add: setFromCoplanarPoints_def setFromNormalAndCoplanarPoint_def Let_def)

lemma plane_from_points_constant:
  "constant (setFromCoplanarPoints p a b c) = - dot a (normal (setFromCoplanarPoints p a b c))"
  by (simp add: setFromCoplanarPoints_def setFromNormalAndCoplanarPoint_def Let_def)

lemma plane_from_points_distance:
  "distanceToPoint (setFromCoplanarPoints p a b c) q =
     dot (cross (subVectors c b) (subVectors a b)) (subVectors q a)
       / length_v (cross (subVectors c b) (subVectors a b))"
  by (simp add: distanceToPoint_def plane_from_points_constant plane_from_points_normal
      normalize_def dot_multiplyScalar_left dot_subVectors_right dot_commute [of a]
      algebra_simps diff_divide_distrib)

text \<open>
  C8. For points \<open>a\<close>, \<open>b\<close>, \<open>c\<close> that are not collinear, the plane set by
  \<open>setFromCoplanarPoints a b c\<close> has signed distance exactly zero to each of the three
  points; its normal is \<open>normalize (cross (c - b) (a - b))\<close> and its constant is
  \<open>- dot a normal\<close>.
\<close>

theorem setFromCoplanarPoints_roundtrip:
  assumes "\<not> collinear3 a b c"
  shows "distanceToPoint (setFromCoplanarPoints p a b c) a = 0
       \<and> distanceToPoint (setFromCoplanarPoints p a b c) b = 0
       \<and> distanceToPoint (setFromCoplanarPoints p a b c) c = 0
       \<and> normal (setFromCoplanarPoints p a b c)
           = normalize (cross (subVectors c b) (subVectors a b))
       \<and> length_v (normal (setFromCoplanarPoints p a b c)) = 1
       \<and> constant (setFromCoplanarPoints p a b c)
           = - dot a (normal (setFromCoplanarPoints p a b c))"
proof -
  let ?n = "cross (subVectors c b) (subVectors a b)"
  have da: "dot ?n (subVectors a a) = 0"
    by (simp add: dot_def subVectors_def)
  have db: "dot ?n (subVectors b a) = 0"
    by (simp add: dot_def cross_def crossVectors_def subVectors_def algebra_simps)
  have dc: "dot ?n (subVectors c a) = 0"
    by (simp add: dot_def cross_def crossVectors_def subVectors_def algebra_simps)
  have pos: "0 < length_v ?n"
    using assms by (simp add: collinear3_def length_v_pos)
  have "lengthSq (normalize ?n) = lengthSq ?n / (length_v ?n * length_v ?n)"
    by (simp add: normalize_def lengthSq_def multiplyScalar_def algebra_simps
        add_divide_distrib)
  also have "length_v ?n * length_v ?n = lengthSq ?n"
    by (simp add: length_v_def lengthSq_nonneg)
  finally have "lengthSq (normalize ?n) = 1"
    using pos by (simp add: length_v_def)
  then have unit: "length_v (normalize ?n) = 1"
    by (simp add: length_v_def)
  show ?thesis
    by (simp add: plane_from_points_distance da db dc unit
        plane_from_points_normal plane_from_points_constant)
qed


text \<open>The roundtrip at the points \<open>(1,0,0)\<close>, \<open>(0,0,0)\<close>, \<open>(0,1,0)\<close>.\<close>

theorem setFromCoplanarPoints_roundtrip_witness:
  "\<not> collinear3 (Vector3 1 0 0) (Vector3 0 0 0) (Vector3 0 1 0)
   \<and> distanceToPoint (setFromCoplanarPoints \<lparr>normal = Vector3 1 0 0, constant = 0\<rparr>
        (Vector3 1 0 0) (Vector3 0 0 0) (Vector3 0 1 0)) (Vector3 1 0 0) = 0
   \<and> distanceToPoint (setFromCoplanarPoints \<lparr>normal = Vector3 1 0 0, constant = 0\<rparr>
        (Vector3 1 0 0) (Vector3 0 0 0) (Vector3 0 1 0)) (Vector3 0 0 0) = 0
   \<and> distanceToPoint (setFromCoplanarPoints \<lparr>normal = Vector3 1 0 0, constant = 0\<rparr>
        (Vector3 1 0 0) (Vector3 0 0 0) (Vector3 0 1 0)) (Vector3 0 1 0) = 0"
proof -
  have h: "\<not> collinear3 (Vector3 1 0 0) (Vector3 0 0 0) (Vector3 0 1 0)"
    by (simp add: collinear3_def cross_def crossVectors_def subVectors_def)
  show ?thesis
    using h setFromCoplanarPoints_roundtrip [OF h, of "\<lparr>normal = Vector3 1 0 0, constant = 0\<rparr>"]
    by simp
qed

lemma normalize_plane_distance:
  "distanceToPoint (normalize_plane p) q = distanceToPoint p q * (1 / length_v (normal p))"
  by (simp add: normalize_plane_def distanceToPoint_def Let_def dot_multiplyScalar_left
      algebra_simps add_divide_distrib)

text \<open>
  C10. For a plane whose normal has nonzero length, \<open>normalize\<close> multiplies the normal
  and the constant by the same positive factor \<open>1 / |normal|\<close>; for every point the
  sign of \<open>distanceToPoint\<close> is preserved, and the set of points at signed distance
  zero is unchanged.
\<close>

theorem normalize_plane_same_plane:
  assumes "length_v (normal p) \<noteq> 0"
  shows "0 < 1 / length_v (normal p)
       \<and> normal (normalize_plane p) = multiplyScalar (normal p) (1 / length_v (normal p))
       \<and> constant (normalize_plane p) = constant p * (1 / length_v (normal p))
       \<and> sgn (distanceToPoint (normalize_plane p) q) = sgn (distanceToPoint p q)
       \<and> (distanceToPoint (normalize_plane p) q = 0 \<longleftrightarrow> distanceToPoint p q = 0)
       \<and> {x. distanceToPoint (normalize_plane p) x = 0} = {x. distanceToPoint p x = 0}"
proof -
  have "0 \<le> length_v (normal p)"
    by (simp add: length_v_def lengthSq_nonneg)
  with assms have pos: "0 < 1 / length_v (normal p)"
    by simp
  have "sgn (distanceToPoint (normalize_plane p) q) = sgn (distanceToPoint p q)"
    unfolding normalize_plane_distance using pos by (simp add: sgn_mult)
  moreover have "\<And>x. distanceToPoint (normalize_plane p) x = 0 \<longleftrightarrow> distanceToPoint p x = 0"
    unfolding normalize_plane_distance using assms by simp
  ultimately show ?thesis
    using pos by (simp add: normalize_plane_def Let_def)
qed

text \<open>The plane \<open>2 z + 6 = 0\<close> normalizes to \<open>z + 3 = 0\<close>.\<close>

theorem normalize_plane_same_plane_witness:
  "length_v (normal \<lparr>normal = Vector3 0 0 2, constant = 6\<rparr>) \<noteq> 0
   \<and> normal (normalize_plane \<lparr>normal = Vector3 0 0 2, constant = 6\<rparr>) = Vector3 0 0 1
   \<and> constant (normalize_plane \<lparr>normal = Vector3 0 0 2, constant = 6\<rparr>) = 3
   \<and> sgn (distanceToPoint (normalize_plane \<lparr>normal = Vector3 0 0 2, constant = 6\<rparr>) (Vector3 1 2 (-5)))
       = sgn (distanceToPoint \<lparr>normal = Vector3 0 0 2, constant = 6\<rparr> (Vector3 1 2 (-5)))
   \<and> sgn (distanceToPoint \<lparr>normal = Vector3 0 0 2, constant = 6\<rparr> (Vector3 1 2 (-5))) = - 1"
proof -
  have l: "length_v (normal \<lparr>normal = Vector3 0 0 2, constant = 6\<rparr>) = 2"
    by (simp add: length_v_def lengthSq_def)
  then have h: "length_v (normal \<lparr>normal = Vector3 0 0 2, constant = 6\<rparr>) \<noteq> 0"
    by simp
  show ?thesis
    using h l normalize_plane_same_plane [OF h, of "Vector3 1 2 (-5)"]
    by (simp add: multiplyScalar_def distanceToPoint_def dot_def)
qed
section \<open>Ray and plane: branch structure\<close>

text \<open>
  C6. \<open>distanceToPlane\<close> with \<open>denominator = dot (plane.normal, direction)\<close>: when the
  denominator is exactly 0 it returns 0 if the origin's signed distance to the plane
  is exactly 0 and null otherwise; when the denominator is nonzero, however small, it
  computes \<open>t = - (dot (origin, normal) + constant) / denominator\<close> and returns \<open>t\<close>
  if \<open>t \<ge> 0\<close>, null if \<open>t < 0\<close>.
\<close>

theorem distanceToPlane_cases:
  "(dot (normal p) (direction r) = 0 \<and> distanceToPoint p (origin r) = 0
      \<longrightarrow> distanceToPlane r p = Some 0)
   \<and> (dot (normal p) (direction r) = 0 \<and> distanceToPoint p (origin r) \<noteq> 0
      \<longrightarrow> distanceToPlane r p = None)
   \<and> (dot (normal p) (direction r) \<noteq> 0
        \<and> 0 \<le> - (dot (origin r) (normal p) + constant p) / dot (normal p) (direction r)
      \<longrightarrow> distanceToPlane r p
            = Some (- (dot (origin r) (normal p) + constant p) / dot (normal p) (direction r)))
   \<and> (dot (normal p) (direction r) \<noteq> 0
        \<and> - (dot (origin r) (normal p) + constant p) / dot (normal p) (direction r) < 0
      \<longrightarrow> distanceToPlane r p = None)"
  by (simp add: distanceToPlane_def Let_def)

text \<open>
  The four branches at the plane \<open>z = 0\<close>: a ray inside the plane, a parallel ray above
  it, a ray from \<open>(0,0,5)\<close> looking down (distance 5), the same ray looking up (null);
  and a ray whose direction has \<open>z\<close> component \<open>- 1 / 1000000\<close> is not treated as
  parallel: its distance is 5000000.
\<close>

theorem distanceToPlane_cases_witness:
  "distanceToPlane \<lparr>origin = Vector3 0 0 0, direction = Vector3 1 0 0\<rparr>
       \<lparr>normal = Vector3 0 0 1, constant = 0\<rparr> = Some 0
   \<and> distanceToPlane \<lparr>origin = Vector3 0 0 5, direction = Vector3 1 0 0\<rparr>
       \<lparr>normal = Vector3 0 0 1, constant = 0\<rparr> = None
   \<and> distanceToPlane \<lparr>origin = Vector3 0 0 5, direction = Vector3 0 0 (- 1)\<rparr>
       \<lparr>normal = Vector3 0 0 1, constant = 0\<rparr> = Some 5
   \<and> distanceToPlane \<lparr>origin = Vector3 0 0 5, direction = Vector3 0 0 1\<rparr>
       \<lparr>normal = Vector3 0 0 1, constant = 0\<rparr> = None
   \<and> distanceToPlane \<lparr>origin = Vector3 0 0 5, direction = Vector3 1 0 (- 1 / 1000000)\<rparr>
       \<lparr>normal = Vector3 0 0 1, constant = 0\<rparr> = Some 5000000"
  using
    distanceToPlane_cases [of "\<lparr>normal = Vector3 0 0 1, constant = 0\<rparr>"
      "\<lparr>origin = Vector3 0 0 0, direction = Vector3 1 0 0\<rparr>"]
    distanceToPlane_cases [of "\<lparr>normal = Vector3 0 0 1, constant = 0\<rparr>"
      "\<lparr>origin = Vector3 0 0 5, direction = Vector3 1 0 0\<rparr>"]
    distanceToPlane_cases [of "\<lparr>normal = Vector3 0 0 1, constant = 0\<rparr>"
      "\<lparr>origin = Vector3 0 0 5, direction = Vector3 0 0 (- 1)\<rparr>"]
    distanceToPlane_cases [of "\<lparr>normal = Vector3 0 0 1, constant = 0\<rparr>"
      "\<lparr>origin = Vector3 0 0 5, direction = Vector3 0 0 1\<rparr>"]
    distanceToPlane_cases [of "\<lparr>normal = Vector3 0 0 1, constant = 0\<rparr>"
      "\<lparr>origin = Vector3 0 0 5, direction = Vector3 1 0 (- 1 / 1000000)\<rparr>"]
  by (simp add: dot_def distanceToPoint_def)

text \<open>
  C7. \<open>Plane.intersectLine\<close>: when \<open>dot (plane.normal, end - start)\<close> is exactly 0 it
  returns the segment's start point if the start's signed distance to the plane is
  exactly 0, else null; when the denominator is nonzero it computes
  \<open>t = - (dot (start, normal) + constant) / denominator\<close> and returns null if \<open>t < 0\<close> or
  \<open>t > 1\<close>, else the point \<open>start + t * (end - start)\<close>.
\<close>

theorem intersectLine_cases:
  "(dot (normal p) (subVectors (end l) (start l)) = 0 \<and> distanceToPoint p (start l) = 0
      \<longrightarrow> intersectLine p l = Some (start l))
   \<and> (dot (normal p) (subVectors (end l) (start l)) = 0 \<and> distanceToPoint p (start l) \<noteq> 0
      \<longrightarrow> intersectLine p l = None)
   \<and> (dot (normal p) (subVectors (end l) (start l)) \<noteq> 0
        \<and> (- (dot (start l) (normal p) + constant p)
              / dot (normal p) (subVectors (end l) (start l)) < 0
           \<or> - (dot (start l) (normal p) + constant p)
              / dot (normal p) (subVectors (end l) (start l)) > 1)
      \<longrightarrow> intersectLine p l = None)
   \<and> (dot (normal p) (subVectors (end l) (start l)) \<noteq> 0
        \<and> 0 \<le> - (dot (start l) (normal p) + constant p)
              / dot (normal p) (subVectors (end l) (start l))
        \<and> - (dot (start l) (normal p) + constant p)
              / dot (normal p) (subVectors (end l) (start l)) \<le> 1
      \<longrightarrow> intersectLine p l
            = Some (add (multiplyScalar (subVectors (end l) (start l))
                      (- (dot (start l) (normal p) + constant p)
                         / dot (normal p) (subVectors (end l) (start l))))
                    (start l)))"
  by (auto simp add: intersectLine_def delta_def Let_def)

text \<open>
  The branches at the plane \<open>z = 0\<close>: a segment inside the plane, a parallel segment
  above it, a segment that stops short of the plane, one that starts beyond it, and
  one that crosses it at \<open>(0,0,0)\<close>.
\<close>

theorem intersectLine_cases_witness:
  "intersectLine \<lparr>normal = Vector3 0 0 1, constant = 0\<rparr>
       \<lparr>start = Vector3 1 2 0, end = Vector3 3 2 0\<rparr> = Some (Vector3 1 2 0)
   \<and> intersectLine \<lparr>normal = Vector3 0 0 1, constant = 0\<rparr>
       \<lparr>start = Vector3 1 2 1, end = Vector3 3 2 1\<rparr> = None
   \<and> intersectLine \<lparr>normal = Vector3 0 0 1, constant = 0\<rparr>
       \<lparr>start = Vector3 0 0 4, end = Vector3 0 0 2\<rparr> = None
   \<and> intersectLine \<lparr>normal = Vector3 0 0 1, constant = 0\<rparr>
       \<lparr>start = Vector3 0 0 (- 2), end = Vector3 0 0 (- 4)\<rparr> = None
   \<and> intersectLine \<lparr>normal = Vector3 0 0 1, constant = 0\<rparr>
       \<lparr>start = Vector3 0 0 1, end = Vector3 0 0 (- 1)\<rparr> = Some (Vector3 0 0 0)"
  using
    intersectLine_cases [of "\<lparr>normal = Vector3 0 0 1, constant = 0\<rparr>"
      "\<lparr>start = Vector3 1 2 0, end = Vector3 3 2 0\<rparr>"]
    intersectLine_cases [of "\<lparr>normal = Vector3 0 0 1, constant = 0\<rparr>"
      "\<lparr>start = Vector3 1 2 1, end = Vector3 3 2 1\<rparr>"]
    intersectLine_cases [of "\<lparr>normal = Vector3 0 0 1, constant = 0\<rparr>"
      "\<lparr>start = Vector3 0 0 4, end = Vector3 0 0 2\<rparr>"]
    intersectLine_cases [of "\<lparr>normal = Vector3 0 0 1, constant = 0\<rparr>"
      "\<lparr>start = Vector3 0 0 (- 2), end = Vector3 0 0 (- 4)\<rparr>"]
    intersectLine_cases [of "\<lparr>normal = Vector3 0 0 1, constant = 0\<rparr>"
      "\<lparr>start = Vector3 0 0 1, end = Vector3 0 0 (- 1)\<rparr>"]
  by (simp add: dot_def distanceToPoint_def subVectors_def multiplyScalar_def add_def)



text \<open>
  C3. With \<open>tca = dot (center - origin, direction)\<close>, \<open>d2 = |center - origin|^2 - tca^2\<close>,
  \<open>thc = sqrt (radius^2 - d2)\<close>, \<open>t0 = tca - thc\<close>, \<open>t1 = tca + thc\<close>:
  \<open>intersectSphere\<close> returns null when \<open>d2 > radius^2\<close> or when both \<open>t0 < 0\<close> and
  \<open>t1 < 0\<close>; returns \<open>at (t1)\<close> when \<open>t0 < 0\<close> and \<open>t1 \<ge> 0\<close>, in which case the origin
  is inside the sphere; otherwise returns \<open>at (t0)\<close>. For origin \<open>(0,0,0)\<close>, direction
  \<open>(0,0,-1)\<close>, center \<open>(0,0,-5)\<close>, radius 1 it returns \<open>(0,0,-4)\<close>, and for center
  \<open>(0,0,5)\<close> it returns null. The statement holds for every direction, of unit
  length or not.
\<close>

theorem intersectSphere_cases:
  "(let v = subVectors (center s) (origin r);
        tca = dot v (direction r);
        d2 = dot v v - tca * tca;
        thc = sqrt (radius s * radius s - d2);
        t0 = tca - thc;
        t1 = tca + thc
    in (d2 > radius s * radius s \<or> (t0 < 0 \<and> t1 < 0) \<longrightarrow> intersectSphere r s = None)
     \<and> (d2 \<le> radius s * radius s \<and> t0 < 0 \<and> t1 \<ge> 0
          \<longrightarrow> intersectSphere r s = Some (at_ray r t1)
              \<and> distanceToSquared (origin r) (center s) \<le> radius s * radius s)
     \<and> (d2 \<le> radius s * radius s \<and> t0 \<ge> 0 \<longrightarrow> intersectSphere r s = Some (at_ray r t0)))
   \<and> intersectSphere \<lparr>origin = Vector3 0 0 0, direction = Vector3 0 0 (- 1)\<rparr>
        \<lparr>center = Vector3 0 0 (- 5), radius = 1\<rparr> = Some (Vector3 0 0 (- 4))
   \<and> intersectSphere \<lparr>origin = Vector3 0 0 0, direction = Vector3 0 0 (- 1)\<rparr>
        \<lparr>center = Vector3 0 0 5, radius = 1\<rparr> = None"
proof -
  define v where "v = subVectors (center s) (origin r)"
  define tca where "tca = dot v (direction r)"
  define d2 where "d2 = dot v v - tca * tca"
  define thc where "thc = sqrt (radius s * radius s - d2)"
  have unf: "intersectSphere r s =
      (if d2 > radius s * radius s then None
       else if tca - thc < 0 \<and> tca + thc < 0 then None
       else if tca - thc < 0 then Some (at_ray r (tca + thc))
       else Some (at_ray r (tca - thc)))"
    by (simp add: intersectSphere_def Let_def v_def tca_def d2_def thc_def)
  have inside: "distanceToSquared (origin r) (center s) \<le> radius s * radius s"
    if le: "d2 \<le> radius s * radius s" and neg: "tca - thc < 0" and pos: "0 \<le> tca + thc"
  proof -
    have thc2: "thc * thc = radius s * radius s - d2"
      using le by (simp add: thc_def)
    have "(tca - thc) * (tca + thc) \<le> 0"
      using neg pos by (simp add: mult_le_0_iff)
    then have "tca * tca - thc * thc \<le> 0"
      by (simp add: algebra_simps)
    then have "dot v v \<le> radius s * radius s"
      using thc2 by (simp add: d2_def)
    moreover have "distanceToSquared (origin r) (center s) = dot v v"
      by (simp add: distanceToSquared_def dot_def v_def subVectors_def Let_def algebra_simps)
    ultimately show ?thesis by simp
  qed
  have general: "(d2 > radius s * radius s \<or> (tca - thc < 0 \<and> tca + thc < 0)
        \<longrightarrow> intersectSphere r s = None)
     \<and> (d2 \<le> radius s * radius s \<and> tca - thc < 0 \<and> tca + thc \<ge> 0
          \<longrightarrow> intersectSphere r s = Some (at_ray r (tca + thc))
              \<and> distanceToSquared (origin r) (center s) \<le> radius s * radius s)
     \<and> (d2 \<le> radius s * radius s \<and> tca - thc \<ge> 0
          \<longrightarrow> intersectSphere r s = Some (at_ray r (tca - thc)))"
    using inside by (auto simp add: unf)
  have ex1: "intersectSphere \<lparr>origin = Vector3 0 0 0, direction = Vector3 0 0 (- 1)\<rparr>
        \<lparr>center = Vector3 0 0 (- 5), radius = 1\<rparr> = Some (Vector3 0 0 (- 4))"
    by (simp add: intersectSphere_def Let_def subVectors_def dot_def at_ray_def
        multiplyScalar_def add_def)
  have ex2: "intersectSphere \<lparr>origin = Vector3 0 0 0, direction = Vector3 0 0 (- 1)\<rparr>
        \<lparr>center = Vector3 0 0 5, radius = 1\<rparr> = None"
    by (simp add: intersectSphere_def Let_def subVectors_def dot_def)
  show ?thesis
    using general ex1 ex2
    by (simp only: Let_def v_def [symmetric] tca_def [symmetric] d2_def [symmetric]
        thc_def [symmetric] simp_thms)
qed

text \<open>
  The branches for the ray from the origin along \<open>- z\<close>: a sphere off to the side, a
  sphere behind, a sphere around the origin (exit point), a sphere ahead (entry point).
\<close>

theorem intersectSphere_cases_witness:
  "intersectSphere \<lparr>origin = Vector3 0 0 0, direction = Vector3 0 0 (- 1)\<rparr>
       \<lparr>center = Vector3 0 3 (- 5), radius = 1\<rparr> = None
   \<and> intersectSphere \<lparr>origin = Vector3 0 0 0, direction = Vector3 0 0 (- 1)\<rparr>
       \<lparr>center = Vector3 0 0 5, radius = 1\<rparr> = None
   \<and> intersectSphere \<lparr>origin = Vector3 0 0 0, direction = Vector3 0 0 (- 1)\<rparr>
       \<lparr>center = Vector3 0 0 (- 1), radius = 2\<rparr> = Some (Vector3 0 0 (- 3))
   \<and> distanceToSquared (Vector3 0 0 0) (Vector3 0 0 (- 1)) \<le> (2::real) * 2
   \<and> intersectSphere \<lparr>origin = Vector3 0 0 0, direction = Vector3 0 0 (- 1)\<rparr>
       \<lparr>center = Vector3 0 0 (- 5), radius = 1\<rparr> = Some (Vector3 0 0 (- 4))"
proof -
  have s1: "sqrt (1 - 9) < (0::real)" by simp
  have s4: "sqrt 4 = (2::real)" by simp
  show ?thesis
    using
      intersectSphere_cases [of "\<lparr>center = Vector3 0 3 (- 5), radius = 1\<rparr>"
        "\<lparr>origin = Vector3 0 0 0, direction = Vector3 0 0 (- 1)\<rparr>"]
      intersectSphere_cases [of "\<lparr>center = Vector3 0 0 5, radius = 1\<rparr>"
        "\<lparr>origin = Vector3 0 0 0, direction = Vector3 0 0 (- 1)\<rparr>"]
      intersectSphere_cases [of "\<lparr>center = Vector3 0 0 (- 1), radius = 2\<rparr>"
        "\<lparr>origin = Vector3 0 0 0, direction = Vector3 0 0 (- 1)\<rparr>"]
      intersectSphere_cases [of "\<lparr>center = Vector3 0 0 (- 5), radius = 1\<rparr>"
        "\<lparr>origin = Vector3 0 0 0, direction = Vector3 0 0 (- 1)\<rparr>"]
    by (simp add: Let_def subVectors_def dot_def at_ray_def multiplyScalar_def add_def s4)
qed

text \<open>
  C5. With \<open>e1 = b - a\<close>, \<open>e2 = c - a\<close>, \<open>n = cross (e1, e2)\<close>,
  \<open>DdN = dot (direction, n)\<close> and \<open>sign\<close> the sign of \<open>DdN\<close>: \<open>intersectTriangle\<close>
  returns null when \<open>DdN > 0\<close> and \<open>backfaceCulling\<close> is set; when \<open>DdN = 0\<close>; when either
  numerator \<open>sign * dot (direction, cross (origin - a, e2))\<close> or
  \<open>sign * dot (direction, cross (e1, origin - a))\<close> is negative; when their sum exceeds
  \<open>|DdN|\<close>; or when \<open>t = (- sign * dot (origin - a, n)) / |DdN|\<close> is negative; otherwise
  it returns \<open>at (t)\<close>. The statement holds for every direction, of unit length or not.
\<close>

theorem intersectTriangle_cases:
  "(let e1 = subVectors b a;
        e2 = subVectors c a;
        n = crossVectors e1 e2;
        DdN = dot (direction r) n;
        sign = (if DdN > 0 then 1 else - 1);
        q = subVectors (origin r) a;
        b1 = sign * dot (direction r) (crossVectors q e2);
        b2 = sign * dot (direction r) (crossVectors e1 q);
        t = (- sign * dot q n) / \<bar>DdN\<bar>
    in (DdN > 0 \<and> cull \<longrightarrow> intersectTriangle r a b c cull = None)
     \<and> (DdN = 0 \<longrightarrow> intersectTriangle r a b c cull = None)
     \<and> (b1 < 0 \<or> b2 < 0 \<longrightarrow> intersectTriangle r a b c cull = None)
     \<and> (b1 + b2 > \<bar>DdN\<bar> \<longrightarrow> intersectTriangle r a b c cull = None)
     \<and> (t < 0 \<longrightarrow> intersectTriangle r a b c cull = None)
     \<and> (\<not> (DdN > 0 \<and> cull) \<and> DdN \<noteq> 0 \<and> 0 \<le> b1 \<and> 0 \<le> b2 \<and> b1 + b2 \<le> \<bar>DdN\<bar> \<and> 0 \<le> t
          \<longrightarrow> intersectTriangle r a b c cull = Some (at_ray r t)))"
proof -
  define DdN where "DdN = dot (direction r) (crossVectors (subVectors b a) (subVectors c a))"
  define sign :: real where "sign = (if DdN > 0 then 1 else - 1)"
  define X where
    "X = dot (direction r) (crossVectors (subVectors (origin r) a) (subVectors c a))"
  define Y where
    "Y = dot (direction r) (crossVectors (subVectors b a) (subVectors (origin r) a))"
  define Q where
    "Q = dot (subVectors (origin r) a) (crossVectors (subVectors b a) (subVectors c a))"
  have unf: "intersectTriangle r a b c cull =
      (if DdN > 0 \<and> cull then None
       else if DdN = 0 then None
       else if sign * X < 0 then None
       else if sign * Y < 0 then None
       else if sign * X + sign * Y > \<bar>DdN\<bar> then None
       else if - sign * Q < 0 then None
       else Some (at_ray r (- sign * Q / \<bar>DdN\<bar>)))"
    by (simp add: intersectTriangle_def Let_def cross_def DdN_def sign_def X_def Y_def Q_def)
  have t_neg: "- sign * Q / \<bar>DdN\<bar> < 0 \<longleftrightarrow> - sign * Q < 0" if "DdN \<noteq> 0"
    using that by (simp add: zero_less_divide_iff)
  have t_div0: "\<not> - sign * Q / \<bar>DdN\<bar> < 0" if "DdN = 0"
    using that by simp
  have general:
    "(DdN > 0 \<and> cull \<longrightarrow> intersectTriangle r a b c cull = None)
     \<and> (DdN = 0 \<longrightarrow> intersectTriangle r a b c cull = None)
     \<and> (sign * X < 0 \<or> sign * Y < 0 \<longrightarrow> intersectTriangle r a b c cull = None)
     \<and> (sign * X + sign * Y > \<bar>DdN\<bar> \<longrightarrow> intersectTriangle r a b c cull = None)
     \<and> (- sign * Q / \<bar>DdN\<bar> < 0 \<longrightarrow> intersectTriangle r a b c cull = None)
     \<and> (\<not> (DdN > 0 \<and> cull) \<and> DdN \<noteq> 0 \<and> 0 \<le> sign * X \<and> 0 \<le> sign * Y
          \<and> sign * X + sign * Y \<le> \<bar>DdN\<bar> \<and> 0 \<le> - sign * Q / \<bar>DdN\<bar>
          \<longrightarrow> intersectTriangle r a b c cull = Some (at_ray r (- sign * Q / \<bar>DdN\<bar>)))"
    using t_neg t_div0 unfolding unf by (cases "DdN = 0") (simp_all add: not_less)
  show ?thesis
    using general
    by (simp only: Let_def DdN_def [symmetric] sign_def [symmetric] X_def [symmetric]
        Y_def [symmetric] Q_def [symmetric])
qed

text \<open>
  The branches at the triangle \<open>(0,0,0)\<close>, \<open>(1,0,0)\<close>, \<open>(0,1,0)\<close>: a back face with and
  without culling, a front face, a parallel ray, two rays that miss, a triangle behind
  the origin.
\<close>

theorem intersectTriangle_cases_witness:
  "intersectTriangle \<lparr>origin = Vector3 (1/4) (1/4) (- 1), direction = Vector3 0 0 1\<rparr>
       (Vector3 0 0 0) (Vector3 1 0 0) (Vector3 0 1 0) True = None
   \<and> intersectTriangle \<lparr>origin = Vector3 (1/4) (1/4) (- 1), direction = Vector3 0 0 1\<rparr>
       (Vector3 0 0 0) (Vector3 1 0 0) (Vector3 0 1 0) False = Some (Vector3 (1/4) (1/4) 0)
   \<and> intersectTriangle \<lparr>origin = Vector3 (1/4) (1/4) 1, direction = Vector3 0 0 (- 1)\<rparr>
       (Vector3 0 0 0) (Vector3 1 0 0) (Vector3 0 1 0) True = Some (Vector3 (1/4) (1/4) 0)
   \<and> intersectTriangle \<lparr>origin = Vector3 (1/4) (1/4) 1, direction = Vector3 1 0 0\<rparr>
       (Vector3 0 0 0) (Vector3 1 0 0) (Vector3 0 1 0) False = None
   \<and> intersectTriangle \<lparr>origin = Vector3 (- 1) (1/4) 1, direction = Vector3 0 0 (- 1)\<rparr>
       (Vector3 0 0 0) (Vector3 1 0 0) (Vector3 0 1 0) False = None
   \<and> intersectTriangle \<lparr>origin = Vector3 1 1 1, direction = Vector3 0 0 (- 1)\<rparr>
       (Vector3 0 0 0) (Vector3 1 0 0) (Vector3 0 1 0) False = None
   \<and> intersectTriangle \<lparr>origin = Vector3 (1/4) (1/4) (- 1), direction = Vector3 0 0 (- 1)\<rparr>
       (Vector3 0 0 0) (Vector3 1 0 0) (Vector3 0 1 0) False = None"
  using
    intersectTriangle_cases [of "Vector3 1 0 0" "Vector3 0 0 0" "Vector3 0 1 0"
      "\<lparr>origin = Vector3 (1/4) (1/4) (- 1), direction = Vector3 0 0 1\<rparr>" True]
    intersectTriangle_cases [of "Vector3 1 0 0" "Vector3 0 0 0" "Vector3 0 1 0"
      "\<lparr>origin = Vector3 (1/4) (1/4) (- 1), direction = Vector3 0 0 1\<rparr>" False]
    intersectTriangle_cases [of "Vector3 1 0 0" "Vector3 0 0 0" "Vector3 0 1 0"
      "\<lparr>origin = Vector3 (1/4) (1/4) 1, direction = Vector3 0 0 (- 1)\<rparr>" True]
    intersectTriangle_cases [of "Vector3 1 0 0" "Vector3 0 0 0" "Vector3 0 1 0"
      "\<lparr>origin = Vector3 (1/4) (1/4) 1, direction = Vector3 1 0 0\<rparr>" False]
    intersectTriangle_cases [of "Vector3 1 0 0" "Vector3 0 0 0" "Vector3 0 1 0"
      "\<lparr>origin = Vector3 (- 1) (1/4) 1, direction = Vector3 0 0 (- 1)\<rparr>" False]
    intersectTriangle_cases [of "Vector3 1 0 0" "Vector3 0 0 0" "Vector3 0 1 0"
      "\<lparr>origin = Vector3 1 1 1, direction = Vector3 0 0 (- 1)\<rparr>" False]
    intersectTriangle_cases [of "Vector3 1 0 0" "Vector3 0 0 0" "Vector3 0 1 0"
      "\<lparr>origin = Vector3 (1/4) (1/4) (- 1), direction = Vector3 0 0 (- 1)\<rparr>" False]
  by (simp add: Let_def subVectors_def dot_def at_ray_def multiplyScalar_def add_def
      crossVectors_def)
section \<open>Ray and sphere: the two tests\<close>


lemma lagrange3: "dot u u * dot v v - dot u v * dot u v = lengthSq (crossVectors u v)"
  by (simp add: dot_def lengthSq_def crossVectors_def algebra_simps)

lemma cauchy_schwarz3: "dot u v * dot u v \<le> dot u u * dot v v"
  using lagrange3 [of u v] lengthSq_nonneg [of "crossVectors u v"] by linarith

lemma unit_direction_dot: "length_v d = 1 \<Longrightarrow> dot d d = 1"
proof -
  assume "length_v d = 1"
  then have "sqrt (lengthSq d) = sqrt 1" by (simp add: length_v_def)
  then have "lengthSq d = 1" by (simp only: real_sqrt_eq_iff)
  then show ?thesis by (simp add: lengthSq_def dot_def)
qed






lemma dot_offset_bound:
  assumes unit: "length_v d = 1" and inside: "dot u u \<le> rad * rad"
  shows "\<bar>dot u d\<bar> \<le> \<bar>rad\<bar>"
proof -
  have "dot u d * dot u d \<le> dot u u"
    using cauchy_schwarz3 [of u d] unit_direction_dot [OF unit] by simp
  with inside have "(dot u d)\<^sup>2 \<le> rad\<^sup>2"
    by (simp add: power2_eq_square)
  then show ?thesis
    by (simp only: abs_le_square_iff)
qed

lemma sphere_point_parameter:
  "dot (subVectors p (origin r)) (direction r)
     = dot (subVectors (center s) (origin r)) (direction r)
       + dot (subVectors p (center s)) (direction r)"
  by (simp add: dot_def subVectors_def algebra_simps)

text \<open>
  \<open>sphereBehind\<close> and \<open>sphereAhead\<close> say what they are meant to: every point within
  the radius of the center has a negative (positive) parameter along the ray.
\<close>

lemma sphereBehind_geometric:
  assumes unit: "length_v (direction r) = 1"
  shows "sphereBehind r s \<longleftrightarrow>
     (\<forall>p. distanceToSquared p (center s) \<le> radius s * radius s
          \<longrightarrow> dot (subVectors p (origin r)) (direction r) < 0)"
proof
  assume behind: "sphereBehind r s"
  show "\<forall>p. distanceToSquared p (center s) \<le> radius s * radius s
          \<longrightarrow> dot (subVectors p (origin r)) (direction r) < 0"
  proof (intro allI impI)
    fix p
    assume "distanceToSquared p (center s) \<le> radius s * radius s"
    then have "dot (subVectors p (center s)) (subVectors p (center s)) \<le> radius s * radius s"
      by (simp add: distanceToSquared_def dot_def subVectors_def Let_def)
    then have "\<bar>dot (subVectors p (center s)) (direction r)\<bar> \<le> \<bar>radius s\<bar>"
      by (rule dot_offset_bound [OF unit])
    then show "dot (subVectors p (origin r)) (direction r) < 0"
      using behind sphere_point_parameter [of p r s] by (simp add: sphereBehind_def)
  qed
next
  assume all: "\<forall>p. distanceToSquared p (center s) \<le> radius s * radius s
          \<longrightarrow> dot (subVectors p (origin r)) (direction r) < 0"
  let ?p = "add (multiplyScalar (direction r) \<bar>radius s\<bar>) (center s)"
  have off: "subVectors ?p (center s) = multiplyScalar (direction r) \<bar>radius s\<bar>"
    by (simp add: subVectors_def add_def multiplyScalar_def)
  have "distanceToSquared ?p (center s)
      = \<bar>radius s\<bar> * \<bar>radius s\<bar> * dot (direction r) (direction r)"
    by (simp add: distanceToSquared_def dot_def add_def multiplyScalar_def Let_def
        algebra_simps)
  then have "distanceToSquared ?p (center s) \<le> radius s * radius s"
    using unit_direction_dot [OF unit] by simp
  with all have "dot (subVectors ?p (origin r)) (direction r) < 0"
    by blast
  then show "sphereBehind r s"
    using sphere_point_parameter [of ?p r s] unit_direction_dot [OF unit]
    by (simp add: off dot_multiplyScalar_left sphereBehind_def)
qed

lemma sphereAhead_geometric:
  assumes unit: "length_v (direction r) = 1"
  shows "sphereAhead r s \<longleftrightarrow>
     (\<forall>p. distanceToSquared p (center s) \<le> radius s * radius s
          \<longrightarrow> 0 < dot (subVectors p (origin r)) (direction r))"
proof
  assume ahead: "sphereAhead r s"
  show "\<forall>p. distanceToSquared p (center s) \<le> radius s * radius s
          \<longrightarrow> 0 < dot (subVectors p (origin r)) (direction r)"
  proof (intro allI impI)
    fix p
    assume "distanceToSquared p (center s) \<le> radius s * radius s"
    then have "dot (subVectors p (center s)) (subVectors p (center s)) \<le> radius s * radius s"
      by (simp add: distanceToSquared_def dot_def subVectors_def Let_def)
    then have "\<bar>dot (subVectors p (center s)) (direction r)\<bar> \<le> \<bar>radius s\<bar>"
      by (rule dot_offset_bound [OF unit])
    then show "0 < dot (subVectors p (origin r)) (direction r)"
      using ahead sphere_point_parameter [of p r s] by (simp add: sphereAhead_def)
  qed
next
  assume all: "\<forall>p. distanceToSquared p (center s) \<le> radius s * radius s
          \<longrightarrow> 0 < dot (subVectors p (origin r)) (direction r)"
  let ?p = "add (multiplyScalar (direction r) (- \<bar>radius s\<bar>)) (center s)"
  have off: "subVectors ?p (center s) = multiplyScalar (direction r) (- \<bar>radius s\<bar>)"
    by (simp add: subVectors_def add_def multiplyScalar_def)
  have "distanceToSquared ?p (center s)
      = \<bar>radius s\<bar> * \<bar>radius s\<bar> * dot (direction r) (direction r)"
    by (simp add: distanceToSquared_def dot_def add_def multiplyScalar_def Let_def
        algebra_simps)
  then have "distanceToSquared ?p (center s) \<le> radius s * radius s"
    using unit_direction_dot [OF unit] by simp
  with all have "0 < dot (subVectors ?p (origin r)) (direction r)"
    by blast
  then show "sphereAhead r s"
    using sphere_point_parameter [of ?p r s] unit_direction_dot [OF unit]
    by (simp add: off dot_multiplyScalar_left sphereAhead_def)
qed





section \<open>Ray and segment\<close>


lemma leaf_interior:
  assumes "0 < det" "0 \<le> n0" "- (ext * det) \<le> n1" "n1 \<le> ext * det"
    and "s0 = n0 * (1 / det)" "s1 = n1 * (1 / det)"
    and "d = s0 * (s0 + a01 * s1 + 2 * b0) + s1 * (a01 * s0 + s1 + 2 * b1) + c"
  shows "regionResult ext a01 b0 b1 c (s0, s1, d)"
proof -
  have "0 \<le> s0"
    using assms by simp
  moreover have "- ext \<le> s1"
    using assms by (simp add: pos_le_divide_eq)
  moreover have "s1 \<le> ext"
    using assms by (simp add: pos_divide_le_eq)
  moreover have "d = s0 * s0 + 2 * a01 * s0 * s1 + s1 * s1 + 2 * b0 * s0 + 2 * b1 * s1 + c"
    unfolding assms(7) by (simp add: algebra_simps)
  ultimately show ?thesis
    by (simp add: regionResult_def)
qed

lemma leaf_edge:
  assumes "0 \<le> ext" "s1 = ext \<or> s1 = - ext"
    and "s0 = max 0 (- (a01 * s1 + b0))"
    and "d = - s0 * s0 + s1 * (s1 + 2 * b1) + c"
  shows "regionResult ext a01 b0 b1 c (s0, s1, d)"
proof -
  have "s0 * (s0 + a01 * s1 + b0) = 0"
  proof (cases "0 \<le> - (a01 * s1 + b0)")
    case True
    then have "s0 + a01 * s1 + b0 = 0" using assms(3) by simp
    then show ?thesis by simp
  next
    case False
    then have "s0 = 0" using assms(3) by simp
    then show ?thesis by simp
  qed
  then have "d = s0 * s0 + 2 * a01 * s0 * s1 + s1 * s1 + 2 * b0 * s0 + 2 * b1 * s1 + c"
    unfolding assms(4) by (simp add: algebra_simps)
  moreover have "0 \<le> s0" "- ext \<le> s1" "s1 \<le> ext"
    using assms by auto
  ultimately show ?thesis
    by (simp add: regionResult_def)
qed

lemma leaf_clamp:
  assumes "0 \<le> ext" "s0 = 0" "s1 = min (max (- ext) (- b1)) ext"
    and "d = s1 * (s1 + 2 * b1) + c"
  shows "regionResult ext a01 b0 b1 c (s0, s1, d)"
  using assms by (simp add: regionResult_def algebra_simps)

lemma max0_not_pos: "\<not> max 0 x > (0::real) \<Longrightarrow> max 0 x = 0"
  by simp

lemma segmentRegions_sound:
  assumes ext: "0 \<le> segExtent"
  shows "regionResult segExtent a01 b0 b1 c (segmentRegions segExtent a01 b0 b1 c det)"
proof (cases "0 < det")
  case False
  show ?thesis
    unfolding segmentRegions_def Let_def
    by (simp only: False if_False) (rule leaf_edge; simp add: ext)
next
  case det: True
  show ?thesis
  proof (cases "0 \<le> a01 * b1 - b0")
    case n0: True
    show ?thesis
    proof (cases "- (segExtent * det) \<le> a01 * b0 - b1")
      case lo: True
      show ?thesis
      proof (cases "a01 * b0 - b1 \<le> segExtent * det")
        case hi: True
        show ?thesis
          unfolding segmentRegions_def Let_def
          by (simp only: det n0 lo hi if_True)
            (rule leaf_interior [OF det n0 lo hi]; simp)
      next
        case hi: False
        show ?thesis
          unfolding segmentRegions_def Let_def
          by (simp only: det n0 lo hi if_True if_False) (rule leaf_edge; simp add: ext)
      qed
    next
      case lo: False
      show ?thesis
        unfolding segmentRegions_def Let_def
        by (simp only: det n0 lo if_True if_False) (rule leaf_edge; simp add: ext)
    qed
  next
    case n0: False
    show ?thesis
    proof (cases "a01 * b0 - b1 \<le> - (segExtent * det)")
      case lo: True
      show ?thesis
      proof (cases "0 < max 0 (- (- a01 * segExtent + b0))")
        case pos: True
        show ?thesis
          unfolding segmentRegions_def Let_def
          by (simp only: det n0 lo pos if_True if_False) (rule leaf_edge; simp add: ext)
      next
        case pos: False
        have zero: "max 0 (- (- a01 * segExtent + b0)) = 0"
          using pos by (rule max0_not_pos)
        show ?thesis
          unfolding segmentRegions_def Let_def
          by (simp only: det n0 lo pos if_True if_False zero) (rule leaf_clamp; simp add: ext)
      qed
    next
      case lo: False
      show ?thesis
      proof (cases "a01 * b0 - b1 \<le> segExtent * det")
        case hi: True
        show ?thesis
          unfolding segmentRegions_def Let_def
          by (simp only: det n0 lo hi if_True if_False) (rule leaf_clamp; simp add: ext)
      next
        case hi: False
        show ?thesis
        proof (cases "0 < max 0 (- (a01 * segExtent + b0))")
          case pos: True
          show ?thesis
            unfolding segmentRegions_def Let_def
            by (simp only: det n0 lo hi pos if_True if_False) (rule leaf_edge; simp add: ext)
        next
          case pos: False
          have zero: "max 0 (- (a01 * segExtent + b0)) = 0"
            using pos by (rule max0_not_pos)
          show ?thesis
            unfolding segmentRegions_def Let_def
            by (simp only: det n0 lo hi pos if_True if_False zero)
              (rule leaf_clamp; simp add: ext)
        qed
      qed
    qed
  qed
qed

lemma normalize_unit:
  assumes "v \<noteq> Vector3 0 0 0"
  shows "dot (normalize v) (normalize v) = 1"
proof -
  have pos: "0 < lengthSq v"
    using assms lengthSq_zero_iff [of v] lengthSq_nonneg [of v] by (simp add: less_le)
  have "dot (normalize v) (normalize v) = lengthSq v / (length_v v * length_v v)"
    by (simp add: normalize_def dot_def lengthSq_def multiplyScalar_def algebra_simps
        add_divide_distrib)
  also have "length_v v * length_v v = lengthSq v"
    by (simp add: length_v_def lengthSq_nonneg)
  finally show ?thesis
    using pos by simp
qed

lemma sub_zero_iff: "sub v1 v0 = Vector3 0 0 0 \<longleftrightarrow> v1 = v0"
  by (cases v1; cases v0) (simp add: sub_def)

lemma distanceTo_length: "distanceTo v0 v1 = length_v (sub v1 v0)"
  by (simp add: distanceTo_def distanceToSquared_def length_v_def lengthSq_def sub_def
      Let_def algebra_simps)

lemma segment_quadratic:
  assumes "dot d d = 1" and "dot e e = 1"
  shows "distanceToSquared (add (multiplyScalar d s0) p) (add (multiplyScalar e s1) m)
     = s0 * s0 + 2 * (- dot d e) * s0 * s1 + s1 * s1
       + 2 * dot (sub p m) d * s0 + 2 * (- dot (sub p m) e) * s1 + lengthSq (sub p m)"
proof -
  have "distanceToSquared (add (multiplyScalar d s0) p) (add (multiplyScalar e s1) m)
     = s0 * s0 * dot d d + 2 * (- dot d e) * s0 * s1 + s1 * s1 * dot e e
       + 2 * dot (sub p m) d * s0 + 2 * (- dot (sub p m) e) * s1 + lengthSq (sub p m)"
    by (simp add: distanceToSquared_def add_def multiplyScalar_def dot_def sub_def
        lengthSq_def Let_def algebra_simps)
  then show ?thesis
    using assms by simp
qed

lemma segment_point_between:
  assumes distinct: "v0 \<noteq> v1"
    and lo: "- (distanceTo v0 v1 * 0.5) \<le> s1" and hi: "s1 \<le> distanceTo v0 v1 * 0.5"
  shows "\<exists>l. 0 \<le> l \<and> l \<le> 1
     \<and> add (multiplyScalar (normalize (sub v1 v0)) s1) (multiplyScalar (add v0 v1) 0.5)
         = add v0 (multiplyScalar (sub v1 v0) l)"
proof -
  define L where "L = length_v (sub v1 v0)"
  have Lpos: "0 < L"
    unfolding L_def using distinct by (intro length_v_pos) (auto simp add: sub_zero_iff)
  have bounds: "- (L * 0.5) \<le> s1" "s1 \<le> L * 0.5"
    using lo hi by (simp_all add: distanceTo_length L_def)
  let ?l = "1 / 2 + s1 / L"
  have "0 \<le> ?l"
    using bounds(1) Lpos by (simp add: field_simps)
  moreover have "?l \<le> 1"
    using bounds(2) Lpos by (simp add: field_simps)
  moreover have "add (multiplyScalar (normalize (sub v1 v0)) s1) (multiplyScalar (add v0 v1) 0.5)
         = add v0 (multiplyScalar (sub v1 v0) ?l)"
  proof -
    have n: "normalize (sub v1 v0) = multiplyScalar (sub v1 v0) (1 / L)"
      by (simp add: normalize_def L_def)
    show ?thesis
      unfolding n using Lpos
      by (simp add: add_def multiplyScalar_def sub_def field_simps)
  qed
  ultimately show ?thesis
    by blast
qed

text \<open>
  C9. For a ray with unit direction and a segment with distinct endpoints, when both
  optional outputs are supplied, the number \<open>distanceSqToSegment\<close> returns is the
  squared distance between the point it writes to \<open>optionalPointOnRay\<close> and the point
  it writes to \<open>optionalPointOnSegment\<close>; the ray point is \<open>origin + s0 * direction\<close>
  with \<open>s0 \<ge> 0\<close>, and the segment point is the midpoint moved by \<open>s1\<close> along the
  segment's direction with \<open>- extent \<le> s1 \<le> extent\<close>, so it lies between \<open>v0\<close> and
  \<open>v1\<close>.
\<close>

theorem distanceSqToSegment_consistent:
  assumes unit: "length_v (direction r) = 1" and distinct: "v0 \<noteq> v1"
    and call: "distanceSqToSegment r v0 v1 (Some tr) (Some ts) = (sqrDist, pr, ps)"
  shows "\<exists>p q s0 s1. pr = Some p \<and> ps = Some q
          \<and> sqrDist = distanceToSquared p q
          \<and> 0 \<le> s0 \<and> p = add (multiplyScalar (direction r) s0) (origin r)
          \<and> - (distanceTo v0 v1 * 0.5) \<le> s1 \<and> s1 \<le> distanceTo v0 v1 * 0.5
          \<and> q = add (multiplyScalar (normalize (sub v1 v0)) s1)
                    (multiplyScalar (add v0 v1) 0.5)
          \<and> (\<exists>l. 0 \<le> l \<and> l \<le> 1 \<and> q = add v0 (multiplyScalar (sub v1 v0) l))"
proof -
  define segCenter where "segCenter = multiplyScalar (add v0 v1) 0.5"
  define segDir where "segDir = normalize (sub v1 v0)"
  define diff where "diff = sub (origin r) segCenter"
  define segExtent where "segExtent = distanceTo v0 v1 * 0.5"
  define a01 where "a01 = - dot (direction r) segDir"
  define b0 where "b0 = dot diff (direction r)"
  define b1 where "b1 = - dot diff segDir"
  define c where "c = lengthSq diff"
  define det where "det = \<bar>1 - a01 * a01\<bar>"
  obtain s0 s1 d where reg: "segmentRegions segExtent a01 b0 b1 c det = (s0, s1, d)"
    by (cases "segmentRegions segExtent a01 b0 b1 c det") blast
  let ?p = "add (multiplyScalar (direction r) s0) (origin r)"
  let ?q = "add (multiplyScalar segDir s1) segCenter"
  have "distanceSqToSegment r v0 v1 (Some tr) (Some ts) = (d, Some ?p, Some ?q)"
    using reg
    by (simp add: distanceSqToSegment_def Let_def segCenter_def segDir_def diff_def
        segExtent_def a01_def b0_def b1_def c_def det_def)
  with call have out: "sqrDist = d" "pr = Some ?p" "ps = Some ?q"
    by simp_all
  have "0 \<le> segExtent"
    by (simp add: segExtent_def distanceTo_def distanceToSquared_def Let_def)
  then have "regionResult segExtent a01 b0 b1 c (s0, s1, d)"
    using segmentRegions_sound [of segExtent a01 b0 b1 c det] reg by simp
  then have s0: "0 \<le> s0" and s1: "- segExtent \<le> s1" "s1 \<le> segExtent"
    and d: "d = s0 * s0 + 2 * a01 * s0 * s1 + s1 * s1 + 2 * b0 * s0 + 2 * b1 * s1 + c"
    by (simp_all add: regionResult_def)
  have dir: "dot (direction r) (direction r) = 1"
    by (rule unit_direction_dot [OF unit])
  have seg: "dot segDir segDir = 1"
    unfolding segDir_def using distinct by (intro normalize_unit) (auto simp add: sub_zero_iff)
  have dist: "d = distanceToSquared ?p ?q"
    unfolding d segment_quadratic [OF dir seg]
    by (simp add: a01_def b0_def b1_def c_def diff_def)
  have between: "\<exists>l. 0 \<le> l \<and> l \<le> 1 \<and> ?q = add v0 (multiplyScalar (sub v1 v0) l)"
    using segment_point_between [OF distinct, of s1] s1
    by (simp add: segExtent_def segDir_def segCenter_def)
  show ?thesis
    using out s0 s1 dist between
    by (simp add: segExtent_def segDir_def segCenter_def) blast
qed


text \<open>
  The ray from the origin along \<open>z\<close> against three segments: one crossing over it
  (region 0), one parallel to it, and one behind its origin (region 3, ray point clamped
  to the origin).
\<close>

theorem distanceSqToSegment_consistent_witness:
  "length_v (direction \<lparr>origin = Vector3 0 0 0, direction = Vector3 0 0 1\<rparr>) = 1
   \<and> Vector3 1 (- 1) 3 \<noteq> Vector3 1 1 3
   \<and> distanceSqToSegment \<lparr>origin = Vector3 0 0 0, direction = Vector3 0 0 1\<rparr>
        (Vector3 1 (- 1) 3) (Vector3 1 1 3) (Some (Vector3 0 0 0)) (Some (Vector3 0 0 0))
       = (1, Some (Vector3 0 0 3), Some (Vector3 1 0 3))
   \<and> (1::real) = distanceToSquared (Vector3 0 0 3) (Vector3 1 0 3)
   \<and> distanceSqToSegment \<lparr>origin = Vector3 0 0 0, direction = Vector3 0 0 1\<rparr>
        (Vector3 1 0 2) (Vector3 1 0 4) (Some (Vector3 0 0 0)) (Some (Vector3 0 0 0))
       = (1, Some (Vector3 0 0 4), Some (Vector3 1 0 4))
   \<and> (1::real) = distanceToSquared (Vector3 0 0 4) (Vector3 1 0 4)
   \<and> distanceSqToSegment \<lparr>origin = Vector3 0 0 0, direction = Vector3 0 0 1\<rparr>
        (Vector3 1 (- 1) (- 3)) (Vector3 1 1 (- 3)) (Some (Vector3 0 0 0)) (Some (Vector3 0 0 0))
       = (10, Some (Vector3 0 0 0), Some (Vector3 1 0 (- 3)))
   \<and> (10::real) = distanceToSquared (Vector3 0 0 0) (Vector3 1 0 (- 3))"
proof -
  let ?r = "\<lparr>origin = Vector3 0 0 0, direction = Vector3 0 0 1\<rparr>"
  have u: "length_v (direction ?r) = 1"
    by (simp add: length_v_def lengthSq_def)
  have d1: "Vector3 1 (- 1) 3 \<noteq> Vector3 1 1 3" by simp
  have d2: "Vector3 1 0 2 \<noteq> Vector3 1 0 4" by simp
  have d3: "Vector3 1 (- 1) (- 3) \<noteq> Vector3 1 1 (- 3)" by simp
  have c1: "distanceSqToSegment ?r (Vector3 1 (- 1) 3) (Vector3 1 1 3)
        (Some (Vector3 0 0 0)) (Some (Vector3 0 0 0))
       = (1, Some (Vector3 0 0 3), Some (Vector3 1 0 3))"
    by (simp add: distanceSqToSegment_def segmentRegions_def Let_def add_def sub_def
        multiplyScalar_def normalize_def length_v_def lengthSq_def distanceTo_def
        distanceToSquared_def dot_def)
  have c2: "distanceSqToSegment ?r (Vector3 1 0 2) (Vector3 1 0 4)
        (Some (Vector3 0 0 0)) (Some (Vector3 0 0 0))
       = (1, Some (Vector3 0 0 4), Some (Vector3 1 0 4))"
    by (simp add: distanceSqToSegment_def segmentRegions_def Let_def add_def sub_def
        multiplyScalar_def normalize_def length_v_def lengthSq_def distanceTo_def
        distanceToSquared_def dot_def)
  have c3: "distanceSqToSegment ?r (Vector3 1 (- 1) (- 3)) (Vector3 1 1 (- 3))
        (Some (Vector3 0 0 0)) (Some (Vector3 0 0 0))
       = (10, Some (Vector3 0 0 0), Some (Vector3 1 0 (- 3)))"
    by (simp add: distanceSqToSegment_def segmentRegions_def Let_def add_def sub_def
        multiplyScalar_def normalize_def length_v_def lengthSq_def distanceTo_def
        distanceToSquared_def dot_def)
  show ?thesis
    using u d1 c1 c2 c3
      distanceSqToSegment_consistent [OF u d1 c1]
      distanceSqToSegment_consistent [OF u d2 c2]
      distanceSqToSegment_consistent [OF u d3 c3]
    by auto
qed
section \<open>Ray and box: the slab method\<close>


lemma intersectBox_unfold:
  assumes "slab (nx (box_min b)) (nx (box_max b)) (nx (originN r)) (nx (directionN r)) = (x0, x1)"
    and "slab (ny (box_min b)) (ny (box_max b)) (ny (originN r)) (ny (directionN r)) = (y0, y1)"
    and "slab (nz (box_min b)) (nz (box_max b)) (nz (originN r)) (nz (directionN r)) = (z0, z1)"
  shows "intersectBox r b =
     (if js_gt x0 y1 \<or> js_gt y0 x1 then None
      else if js_gt (narrowMin x0 y0) z1 \<or> js_gt z0 (narrowMax x1 y1) then None
      else if js_lt (narrowMax (narrowMax x1 y1) z1) (Fin 0) then None
      else Some (atN r (if js_ge (narrowMin (narrowMin x0 y0) z0) (Fin 0)
                        then narrowMin (narrowMin x0 y0) z0
                        else narrowMax (narrowMax x1 y1) z1)))"
proof -
  have x: "(if js_ge (js_div (Fin 1) (nx (directionN r))) (Fin 0)
            then (js_mul (js_sub (nx (box_min b)) (nx (originN r))) (js_div (Fin 1) (nx (directionN r))),
                  js_mul (js_sub (nx (box_max b)) (nx (originN r))) (js_div (Fin 1) (nx (directionN r))))
            else (js_mul (js_sub (nx (box_max b)) (nx (originN r))) (js_div (Fin 1) (nx (directionN r))),
                  js_mul (js_sub (nx (box_min b)) (nx (originN r))) (js_div (Fin 1) (nx (directionN r)))))
           = (x0, x1)"
    using assms(1) by (simp only: slab_def Let_def)
  have y: "(if js_ge (js_div (Fin 1) (ny (directionN r))) (Fin 0)
            then (js_mul (js_sub (ny (box_min b)) (ny (originN r))) (js_div (Fin 1) (ny (directionN r))),
                  js_mul (js_sub (ny (box_max b)) (ny (originN r))) (js_div (Fin 1) (ny (directionN r))))
            else (js_mul (js_sub (ny (box_max b)) (ny (originN r))) (js_div (Fin 1) (ny (directionN r))),
                  js_mul (js_sub (ny (box_min b)) (ny (originN r))) (js_div (Fin 1) (ny (directionN r)))))
           = (y0, y1)"
    using assms(2) by (simp only: slab_def Let_def)
  have z: "(if js_ge (js_div (Fin 1) (nz (directionN r))) (Fin 0)
            then (js_mul (js_sub (nz (box_min b)) (nz (originN r))) (js_div (Fin 1) (nz (directionN r))),
                  js_mul (js_sub (nz (box_max b)) (nz (originN r))) (js_div (Fin 1) (nz (directionN r))))
            else (js_mul (js_sub (nz (box_max b)) (nz (originN r))) (js_div (Fin 1) (nz (directionN r))),
                  js_mul (js_sub (nz (box_min b)) (nz (originN r))) (js_div (Fin 1) (nz (directionN r)))))
           = (z0, z1)"
    using assms(3) by (simp only: slab_def Let_def)
  show ?thesis
    unfolding intersectBox_def Let_def x y z narrowMin_def narrowMax_def
    by (simp only: prod.case if_True if_False split: if_split)
qed

lemma narrow_nan:
  "narrowMin NaN bound = bound" "narrowMax NaN bound = bound"
  "narrowMin running NaN = running" "narrowMax running NaN = running"
  by (cases running; simp add: narrowMin_def narrowMax_def js_ne_def js_gt_def)+

lemma nan_compare:
  "\<not> js_gt NaN c" "\<not> js_gt c NaN" "\<not> js_lt NaN c" "\<not> js_lt c NaN"
  "\<not> js_ge NaN c" "\<not> js_ge c NaN"
  by (cases c; simp add: js_gt_def js_ge_def)+

lemma isFinite_val_zero: "isFinite a \<Longrightarrow> isZero a \<longleftrightarrow> val a = 0"
  by (cases a) simp_all

lemma js_sub_finite:
  assumes "isFinite a" "isFinite b"
  shows "isFinite (js_sub a b)" and "val (js_sub a b) = val a - val b"
  using assms by (cases a; cases b; simp add: js_sub_def js_add_def signedFin_def)+

lemma js_recip_finite:
  assumes "isFinite d"
  shows "js_div (Fin 1) d \<noteq> NaN"
    and "isInfinite (js_div (Fin 1) d) \<longleftrightarrow> isZero d"
    and "\<not> isZero (js_div (Fin 1) d)"
  using assms by (cases d; simp add: js_div_def signedFin_def signedInf_def)+

lemma js_mul_nan_iff:
  assumes "a \<noteq> NaN" "b \<noteq> NaN"
  shows "js_mul a b = NaN \<longleftrightarrow> (isZero a \<and> isInfinite b) \<or> (isInfinite a \<and> isZero b)"
  using assms by (simp add: js_mul_def signedInf_def signedFin_def)

lemma slab_bound_nan:
  assumes "isFinite v" "isFinite org" "isFinite d"
  shows "js_mul (js_sub v org) (js_div (Fin 1) d) = NaN \<longleftrightarrow> isZero d \<and> val v = val org"
proof -
  have fin: "isFinite (js_sub v org)" and dv: "val (js_sub v org) = val v - val org"
    using js_sub_finite [OF assms(1,2)] by simp_all
  from fin have "js_sub v org \<noteq> NaN" "\<not> isInfinite (js_sub v org)"
    by (cases "js_sub v org"; simp)+
  then show ?thesis
    using js_mul_nan_iff [of "js_sub v org" "js_div (Fin 1) d"] js_recip_finite [OF assms(3)]
      isFinite_val_zero [OF fin] dv
    by auto
qed



text \<open>
  The scenario of the spec. The origin lies on the box's face \<open>x = -1\<close> and the ray runs
  along \<open>- z\<close>: the \<open>x\<close> slab is \<open>(NaN, +\<infinity>)\<close>, the \<open>y\<close> slab \<open>(-\<infinity>, +\<infinity>)\<close>, the \<open>z\<close>
  slab \<open>(-0, 2)\<close>; the NaN is replaced by \<open>-\<infinity>\<close>, then by \<open>-0\<close>, and \<open>-0 >= 0\<close> holds, so
  the result is \<open>at (-0)\<close>, the origin.
\<close>

lemma box_scenario:
  "intersectBox
     \<lparr>originN = Vector3N (Fin (- 1)) (Fin 0.5) (Fin 1),
      directionN = Vector3N (Fin 0) (Fin 0) (Fin (- 1))\<rparr>
     \<lparr>box_min = Vector3N (Fin (- 1)) (Fin (- 1)) (Fin (- 1)),
      box_max = Vector3N (Fin 1) (Fin 1) (Fin 1)\<rparr>
   = Some (Vector3N (Fin (- 1)) (Fin 0.5) (Fin 1))"
  by (simp add: intersectBox_def Let_def atN_def js_mul_def js_sub_def js_add_def js_div_def
      signedFin_def signedInf_def js_gt_def js_ge_def js_ne_def)

text \<open>
  C4. \<open>intersectBox\<close> runs the slab method with per-axis reciprocal direction
  components: it returns null if an axis's slab interval is empty relative to the running
  \<open>[tmin, tmax]\<close> or if the final \<open>tmax < 0\<close>; otherwise it returns \<open>at (tmin)\<close> when
  \<open>tmin >= 0\<close> and \<open>at (tmax)\<close> when \<open>tmin < 0\<close> (and also when \<open>tmin\<close> is NaN). A NaN
  running bound is replaced by the next axis's bound, and a NaN bound of the next axis
  leaves the running bound as it is, since comparisons with NaN are false in both
  directions; with finite inputs a slab bound is NaN exactly when the direction
  component is zero and the origin lies on that slab plane (zero times infinity). For
  origin \<open>(-1, 0.5, 1)\<close>, direction \<open>(0, 0, -1)\<close>, box \<open>(-1,-1,-1)\<close> to \<open>(1,1,1)\<close> it
  returns \<open>(-1, 0.5, 1)\<close>. The statement holds for every box, ordered or not.
\<close>

theorem intersectBox_slab_method:
  "(case slab (nx (box_min b)) (nx (box_max b)) (nx (originN r)) (nx (directionN r)) of
      (x0, x1) \<Rightarrow>
    case slab (ny (box_min b)) (ny (box_max b)) (ny (originN r)) (ny (directionN r)) of
      (y0, y1) \<Rightarrow>
    case slab (nz (box_min b)) (nz (box_max b)) (nz (originN r)) (nz (directionN r)) of
      (z0, z1) \<Rightarrow>
      let tmin1 = narrowMin x0 y0;
          tmax1 = narrowMax x1 y1;
          tmin2 = narrowMin tmin1 z0;
          tmax2 = narrowMax tmax1 z1
      in (js_gt x0 y1 \<or> js_gt y0 x1 \<or> js_gt tmin1 z1 \<or> js_gt z0 tmax1 \<or> js_lt tmax2 (Fin 0)
            \<longrightarrow> intersectBox r b = None)
       \<and> (\<not> js_gt x0 y1 \<and> \<not> js_gt y0 x1 \<and> \<not> js_gt tmin1 z1 \<and> \<not> js_gt z0 tmax1
            \<and> \<not> js_lt tmax2 (Fin 0) \<and> js_ge tmin2 (Fin 0)
            \<longrightarrow> intersectBox r b = Some (atN r tmin2))
       \<and> (\<not> js_gt x0 y1 \<and> \<not> js_gt y0 x1 \<and> \<not> js_gt tmin1 z1 \<and> \<not> js_gt z0 tmax1
            \<and> \<not> js_lt tmax2 (Fin 0) \<and> js_lt tmin2 (Fin 0)
            \<longrightarrow> intersectBox r b = Some (atN r tmax2))
       \<and> (\<not> js_gt x0 y1 \<and> \<not> js_gt y0 x1 \<and> \<not> js_gt tmin1 z1 \<and> \<not> js_gt z0 tmax1
            \<and> \<not> js_lt tmax2 (Fin 0) \<and> tmin2 = NaN
            \<longrightarrow> intersectBox r b = Some (atN r tmax2)))
   \<and> narrowMin NaN bound = bound \<and> narrowMax NaN bound = bound
   \<and> narrowMin running NaN = running \<and> narrowMax running NaN = running
   \<and> \<not> js_gt NaN c \<and> \<not> js_gt c NaN \<and> \<not> js_lt NaN c \<and> \<not> js_lt c NaN
   \<and> (isFinite v \<and> isFinite org \<and> isFinite d
        \<longrightarrow> (js_mul (js_sub v org) (js_div (Fin 1) d) = NaN \<longleftrightarrow> isZero d \<and> val v = val org))
   \<and> intersectBox
        \<lparr>originN = Vector3N (Fin (- 1)) (Fin 0.5) (Fin 1),
         directionN = Vector3N (Fin 0) (Fin 0) (Fin (- 1))\<rparr>
        \<lparr>box_min = Vector3N (Fin (- 1)) (Fin (- 1)) (Fin (- 1)),
         box_max = Vector3N (Fin 1) (Fin 1) (Fin 1)\<rparr>
      = Some (Vector3N (Fin (- 1)) (Fin 0.5) (Fin 1))"
proof -
  obtain x0 x1 where x:
    "slab (nx (box_min b)) (nx (box_max b)) (nx (originN r)) (nx (directionN r)) = (x0, x1)"
    by (cases "slab (nx (box_min b)) (nx (box_max b)) (nx (originN r)) (nx (directionN r))")
  obtain y0 y1 where y:
    "slab (ny (box_min b)) (ny (box_max b)) (ny (originN r)) (ny (directionN r)) = (y0, y1)"
    by (cases "slab (ny (box_min b)) (ny (box_max b)) (ny (originN r)) (ny (directionN r))")
  obtain z0 z1 where z:
    "slab (nz (box_min b)) (nz (box_max b)) (nz (originN r)) (nz (directionN r)) = (z0, z1)"
    by (cases "slab (nz (box_min b)) (nz (box_max b)) (nz (originN r)) (nz (directionN r))")
  have lt_not_ge: "\<not> js_ge t (Fin 0)" if "js_lt t (Fin 0)" for t
    using that by (cases t) (simp_all add: js_ge_def)
  have branches:
    "(js_gt x0 y1 \<or> js_gt y0 x1 \<or> js_gt (narrowMin x0 y0) z1 \<or> js_gt z0 (narrowMax x1 y1)
        \<or> js_lt (narrowMax (narrowMax x1 y1) z1) (Fin 0)
            \<longrightarrow> intersectBox r b = None)
       \<and> (\<not> js_gt x0 y1 \<and> \<not> js_gt y0 x1 \<and> \<not> js_gt (narrowMin x0 y0) z1
            \<and> \<not> js_gt z0 (narrowMax x1 y1)
            \<and> \<not> js_lt (narrowMax (narrowMax x1 y1) z1) (Fin 0)
            \<and> js_ge (narrowMin (narrowMin x0 y0) z0) (Fin 0)
            \<longrightarrow> intersectBox r b = Some (atN r (narrowMin (narrowMin x0 y0) z0)))
       \<and> (\<not> js_gt x0 y1 \<and> \<not> js_gt y0 x1 \<and> \<not> js_gt (narrowMin x0 y0) z1
            \<and> \<not> js_gt z0 (narrowMax x1 y1)
            \<and> \<not> js_lt (narrowMax (narrowMax x1 y1) z1) (Fin 0)
            \<and> js_lt (narrowMin (narrowMin x0 y0) z0) (Fin 0)
            \<longrightarrow> intersectBox r b = Some (atN r (narrowMax (narrowMax x1 y1) z1)))
       \<and> (\<not> js_gt x0 y1 \<and> \<not> js_gt y0 x1 \<and> \<not> js_gt (narrowMin x0 y0) z1
            \<and> \<not> js_gt z0 (narrowMax x1 y1)
            \<and> \<not> js_lt (narrowMax (narrowMax x1 y1) z1) (Fin 0)
            \<and> narrowMin (narrowMin x0 y0) z0 = NaN
            \<longrightarrow> intersectBox r b = Some (atN r (narrowMax (narrowMax x1 y1) z1)))"
    using lt_not_ge [of "narrowMin (narrowMin x0 y0) z0"] nan_compare(5) [of "Fin 0"]
    unfolding intersectBox_unfold [OF x y z] by auto
  show ?thesis
    unfolding x y z prod.case Let_def
    using branches narrow_nan(1,2) [of bound] narrow_nan(3,4) [of running]
      nan_compare(1-4) [of c] slab_bound_nan [of v org d] box_scenario
    by (intro conjI impI) simp_all
qed

text \<open>
  The four outcomes at the box \<open>(-1,-1,-1)\<close> to \<open>(1,1,1)\<close>: an origin inside
  (\<open>tmin < 0\<close>, exit point), a box behind the ray (\<open>tmax < 0\<close>), a ray that passes
  beside the box (empty slab intersection), and the grazing ray of the scenario with
  its three slabs.
\<close>

theorem intersectBox_slab_method_witness:
  "intersectBox
     \<lparr>originN = Vector3N (Fin (- 1)) (Fin 0.5) (Fin 1),
      directionN = Vector3N (Fin 0) (Fin 0) (Fin (- 1))\<rparr>
     \<lparr>box_min = Vector3N (Fin (- 1)) (Fin (- 1)) (Fin (- 1)),
      box_max = Vector3N (Fin 1) (Fin 1) (Fin 1)\<rparr>
    = Some (Vector3N (Fin (- 1)) (Fin 0.5) (Fin 1))
   \<and> slab (Fin (- 1)) (Fin 1) (Fin (- 1)) (Fin 0) = (NaN, PosInf)
   \<and> slab (Fin (- 1)) (Fin 1) (Fin 0.5) (Fin 0) = (NegInf, PosInf)
   \<and> slab (Fin (- 1)) (Fin 1) (Fin 1) (Fin (- 1)) = (NegZero, Fin 2)
   \<and> narrowMin NaN NegInf = NegInf
   \<and> isFinite (Fin 0)
   \<and> js_mul (js_sub (Fin (- 1)) (Fin (- 1))) (js_div (Fin 1) (Fin 0)) = NaN
   \<and> intersectBox
     \<lparr>originN = Vector3N (Fin 0) (Fin 0) (Fin 0),
      directionN = Vector3N (Fin 0) (Fin 0) (Fin (- 1))\<rparr>
     \<lparr>box_min = Vector3N (Fin (- 1)) (Fin (- 1)) (Fin (- 1)),
      box_max = Vector3N (Fin 1) (Fin 1) (Fin 1)\<rparr>
    = Some (Vector3N (Fin 0) (Fin 0) (Fin (- 1)))
   \<and> intersectBox
     \<lparr>originN = Vector3N (Fin 0) (Fin 0) (Fin 5),
      directionN = Vector3N (Fin 0) (Fin 0) (Fin 1)\<rparr>
     \<lparr>box_min = Vector3N (Fin (- 1)) (Fin (- 1)) (Fin (- 1)),
      box_max = Vector3N (Fin 1) (Fin 1) (Fin 1)\<rparr>
    = None
   \<and> intersectBox
     \<lparr>originN = Vector3N (Fin 3) (Fin 0) (Fin 5),
      directionN = Vector3N (Fin 0) (Fin 0) (Fin (- 1))\<rparr>
     \<lparr>box_min = Vector3N (Fin (- 1)) (Fin (- 1)) (Fin (- 1)),
      box_max = Vector3N (Fin 1) (Fin 1) (Fin 1)\<rparr>
    = None"
proof -
  have s1: "slab (Fin (- 1)) (Fin 1) (Fin (- 1)) (Fin 0) = (NaN, PosInf)"
    by (simp add: slab_def Let_def js_mul_def js_sub_def js_add_def js_div_def
        signedFin_def signedInf_def js_ge_def)
  have s2: "slab (Fin (- 1)) (Fin 1) (Fin 0.5) (Fin 0) = (NegInf, PosInf)"
    by (simp add: slab_def Let_def js_mul_def js_sub_def js_add_def js_div_def
        signedFin_def signedInf_def js_ge_def)
  have s3: "slab (Fin (- 1)) (Fin 1) (Fin 1) (Fin (- 1)) = (NegZero, Fin 2)"
    by (simp add: slab_def Let_def js_mul_def js_sub_def js_add_def js_div_def
        signedFin_def signedInf_def js_ge_def)
  have s4: "slab (Fin (- 1)) (Fin 1) (Fin 0) (Fin 0) = (NegInf, PosInf)"
    by (simp add: slab_def Let_def js_mul_def js_sub_def js_add_def js_div_def
        signedFin_def signedInf_def js_ge_def)
  have s5: "slab (Fin (- 1)) (Fin 1) (Fin 0) (Fin (- 1)) = (Fin (- 1), Fin 1)"
    by (simp add: slab_def Let_def js_mul_def js_sub_def js_add_def js_div_def
        signedFin_def signedInf_def js_ge_def)
  have s6: "slab (Fin (- 1)) (Fin 1) (Fin 5) (Fin 1) = (Fin (- 6), Fin (- 4))"
    by (simp add: slab_def Let_def js_mul_def js_sub_def js_add_def js_div_def
        signedFin_def signedInf_def js_ge_def)
  have s7: "slab (Fin (- 1)) (Fin 1) (Fin 3) (Fin 0) = (NegInf, NegInf)"
    by (simp add: slab_def Let_def js_mul_def js_sub_def js_add_def js_div_def
        signedFin_def signedInf_def js_ge_def)
  have s8: "slab (Fin (- 1)) (Fin 1) (Fin 5) (Fin (- 1)) = (Fin 4, Fin 6)"
    by (simp add: slab_def Let_def js_mul_def js_sub_def js_add_def js_div_def
        signedFin_def signedInf_def js_ge_def)
  have i0: "narrowMin NaN NegInf = NegInf"
    using intersectBox_slab_method [where
        b = "\<lparr>box_min = Vector3N (Fin (- 1)) (Fin (- 1)) (Fin (- 1)),
          box_max = Vector3N (Fin 1) (Fin 1) (Fin 1)\<rparr>" and
        r = "\<lparr>originN = Vector3N (Fin 0) (Fin 0) (Fin 0),
          directionN = Vector3N (Fin 0) (Fin 0) (Fin (- 1))\<rparr>" and
        bound = NegInf and running = NegInf and c = NaN and
        v = "Fin (- 1)" and org = "Fin (- 1)" and d = "Fin 0"]
    by simp
  have i5: "js_mul (js_sub (Fin (- 1)) (Fin (- 1))) (js_div (Fin 1) (Fin 0)) = NaN"
    using intersectBox_slab_method [where
        b = "\<lparr>box_min = Vector3N (Fin (- 1)) (Fin (- 1)) (Fin (- 1)),
          box_max = Vector3N (Fin 1) (Fin 1) (Fin 1)\<rparr>" and
        r = "\<lparr>originN = Vector3N (Fin 0) (Fin 0) (Fin 0),
          directionN = Vector3N (Fin 0) (Fin 0) (Fin (- 1))\<rparr>" and
        bound = NegInf and running = NegInf and c = NaN and
        v = "Fin (- 1)" and org = "Fin (- 1)" and d = "Fin 0"]
    by simp
  have i1: "intersectBox
     \<lparr>originN = Vector3N (Fin 0) (Fin 0) (Fin 0),
      directionN = Vector3N (Fin 0) (Fin 0) (Fin (- 1))\<rparr>
     \<lparr>box_min = Vector3N (Fin (- 1)) (Fin (- 1)) (Fin (- 1)),
      box_max = Vector3N (Fin 1) (Fin 1) (Fin 1)\<rparr>
    = Some (Vector3N (Fin 0) (Fin 0) (Fin (- 1)))"
    using intersectBox_slab_method [where
        b = "\<lparr>box_min = Vector3N (Fin (- 1)) (Fin (- 1)) (Fin (- 1)),
          box_max = Vector3N (Fin 1) (Fin 1) (Fin 1)\<rparr>" and
        r = "\<lparr>originN = Vector3N (Fin 0) (Fin 0) (Fin 0),
          directionN = Vector3N (Fin 0) (Fin 0) (Fin (- 1))\<rparr>" and
        bound = NegInf and running = NegInf and c = NaN and
        v = "Fin (- 1)" and org = "Fin (- 1)" and d = "Fin 0"]
    by (simp add: s1 s2 s3 s4 s5 s6 s7 s8 narrowMin_def narrowMax_def js_gt_def js_ge_def
        js_ne_def atN_def js_mul_def js_add_def signedFin_def Let_def)
  have i2: "intersectBox
     \<lparr>originN = Vector3N (Fin 0) (Fin 0) (Fin 5),
      directionN = Vector3N (Fin 0) (Fin 0) (Fin 1)\<rparr>
     \<lparr>box_min = Vector3N (Fin (- 1)) (Fin (- 1)) (Fin (- 1)),
      box_max = Vector3N (Fin 1) (Fin 1) (Fin 1)\<rparr>
    = None"
    using intersectBox_slab_method [where
        b = "\<lparr>box_min = Vector3N (Fin (- 1)) (Fin (- 1)) (Fin (- 1)),
          box_max = Vector3N (Fin 1) (Fin 1) (Fin 1)\<rparr>" and
        r = "\<lparr>originN = Vector3N (Fin 0) (Fin 0) (Fin 5),
          directionN = Vector3N (Fin 0) (Fin 0) (Fin 1)\<rparr>" and
        bound = NegInf and running = NegInf and c = NaN and
        v = "Fin (- 1)" and org = "Fin (- 1)" and d = "Fin 0"]
    by (simp add: s1 s2 s3 s4 s5 s6 s7 s8 narrowMin_def narrowMax_def js_gt_def js_ge_def
        js_ne_def atN_def js_mul_def js_add_def signedFin_def Let_def)
  have i3: "intersectBox
     \<lparr>originN = Vector3N (Fin 3) (Fin 0) (Fin 5),
      directionN = Vector3N (Fin 0) (Fin 0) (Fin (- 1))\<rparr>
     \<lparr>box_min = Vector3N (Fin (- 1)) (Fin (- 1)) (Fin (- 1)),
      box_max = Vector3N (Fin 1) (Fin 1) (Fin 1)\<rparr>
    = None"
    using intersectBox_slab_method [where
        b = "\<lparr>box_min = Vector3N (Fin (- 1)) (Fin (- 1)) (Fin (- 1)),
          box_max = Vector3N (Fin 1) (Fin 1) (Fin 1)\<rparr>" and
        r = "\<lparr>originN = Vector3N (Fin 3) (Fin 0) (Fin 5),
          directionN = Vector3N (Fin 0) (Fin 0) (Fin (- 1))\<rparr>" and
        bound = NegInf and running = NegInf and c = NaN and
        v = "Fin (- 1)" and org = "Fin (- 1)" and d = "Fin 0"]
    by (simp add: s1 s2 s3 s4 s5 s6 s7 s8 narrowMin_def narrowMax_def js_gt_def js_ge_def
        js_ne_def atN_def js_mul_def js_add_def signedFin_def Let_def)
  have i4: "intersectBox
     \<lparr>originN = Vector3N (Fin (- 1)) (Fin 0.5) (Fin 1),
      directionN = Vector3N (Fin 0) (Fin 0) (Fin (- 1))\<rparr>
     \<lparr>box_min = Vector3N (Fin (- 1)) (Fin (- 1)) (Fin (- 1)),
      box_max = Vector3N (Fin 1) (Fin 1) (Fin 1)\<rparr>
    = Some (Vector3N (Fin (- 1)) (Fin 0.5) (Fin 1))"
    using intersectBox_slab_method [where
        b = "\<lparr>box_min = Vector3N (Fin (- 1)) (Fin (- 1)) (Fin (- 1)),
          box_max = Vector3N (Fin 1) (Fin 1) (Fin 1)\<rparr>" and
        r = "\<lparr>originN = Vector3N (Fin (- 1)) (Fin 0.5) (Fin 1),
          directionN = Vector3N (Fin 0) (Fin 0) (Fin (- 1))\<rparr>" and
        bound = NegInf and running = NegInf and c = NaN and
        v = "Fin (- 1)" and org = "Fin (- 1)" and d = "Fin 0"]
    by (simp add: s1 s2 s3 s4 s5 s6 s7 s8 narrowMin_def narrowMax_def js_gt_def js_ge_def
        js_ne_def atN_def js_mul_def js_add_def signedFin_def Let_def)
  show ?thesis
    using s1 s2 s3 i0 i1 i2 i3 i4 i5 by simp
qed

end
